theory Spec2Isabelle
  imports Main "HOL-Library.Word"
begin

section \<open>The schat sample client (samples/schat/schat.cpp)\<close>

text \<open>
  The chat client is glue code around an external engine (\<open>fscp::server\<close>), the
  Boost.Asio reactor and the C++ standard streams. The embedding keeps every function of
  \<open>schat.cpp\<close> as a function on an explicit program state. Calls into the external
  collaborators are not executed: each one is appended, in program order, to a log of
  effects kept in the state, so that a theorem can say which calls a function issues,
  with which arguments, and in which order. Results that only the collaborators can
  produce (name resolution, file loading, the number of hardware threads) are parameters.
\<close>

subsection \<open>Values exchanged with the collaborators\<close>

datatype endpoint = Endpoint (ep_address: string) (ep_port: nat)

datatype std_exception = Std_exception (what: string)

datatype cert_type = Cert (subject_oneline: string)

type_synonym error_code = int

type_synonym time_duration = int

type_synonym algorithm_info_type = string

type_synonym cipher_algorithm_type = nat

type_synonym channel_number_type = nat

text \<open>
  Modelled from the spec: \<open>fscp::CHANNEL_NUMBER_0\<close> is declared in the engine's headers,
  which are not part of the sample; the specification calls it the fixed default channel,
  channel number 0.
\<close>

definition CHANNEL_NUMBER_0 :: channel_number_type where
  "CHANNEL_NUMBER_0 = 0"

text \<open>
  \<open>SIGINT\<close>, \<open>SIGABRT\<close> and \<open>SIGTERM\<close> with the values of \<open>signal.h\<close> on Linux, and the exit
  statuses of \<open>stdlib.h\<close>.
\<close>

definition SIGINT :: int where "SIGINT = 2"
definition SIGABRT :: int where "SIGABRT = 6"
definition SIGTERM :: int where "SIGTERM = 15"

definition EXIT_SUCCESS :: int where "EXIT_SUCCESS = 0"
definition EXIT_FAILURE :: int where "EXIT_FAILURE = 1"

subsection \<open>The program state and the log of effects\<close>

datatype ostream = Cout | Cerr

text \<open>One operand of a chain of \<open><<\<close> insertions.\<close>

datatype item =
    Str string
  | Ep endpoint
  | Num int
  | Flag bool
  | Message error_code
  | What std_exception
  | Duration time_duration
  | Algorithms algorithm_info_type

text \<open>The completion handlers that the sample binds and hands to asynchronous calls.\<close>

datatype handler =
    Simple_handler string
  | Multiple_handler
  | On_hello_response endpoint
  | Handle_read_input

text \<open>What \<open>stop_function\<close> can be bound to (lines 318 and 322).\<close>

datatype stop_action = Close_input | Close_server

text \<open>
  An output statement (a chain of insertions ended by \<open>std::endl\<close>) is one \<open>Write\<close>; its
  flag tells whether \<open>output_mutex\<close> was held by the writer at that moment. A chain that
  an exception cuts short, before its \<open>std::endl\<close>, is a \<open>Write_unfinished\<close> of the
  operands inserted so far: it is not a line.
\<close>

datatype effect =
    Write ostream "item list" bool
  | Write_unfinished ostream "item list" bool
  | Async_introduce_to endpoint handler
  | Async_request_session endpoint handler
  | Async_greet endpoint handler
  | Async_send_data_to_all channel_number_type string handler
  | Async_read_until handler
  | Server_close
  | Input_close
  | Stop_function_call
  | Set_cipher_capabilities "cipher_algorithm_type list"
  | Server_open endpoint
  | Set_callbacks
  | Create_thread
  | Join_all

record world =
  stop_function :: "stop_action option"
  output_mutex :: bool
  effects :: "effect list"

definition perform :: "effect \<Rightarrow> world \<Rightarrow> world" where
  "perform e st = st\<lparr>effects := effects st @ [e]\<rparr>"

text \<open>\<open>stream << ... << std::endl\<close>: the write records whether the mutex is held.\<close>

definition put_line :: "ostream \<Rightarrow> item list \<Rightarrow> world \<Rightarrow> world" where
  "put_line s items st = perform (Write s items (output_mutex st)) st"

text \<open>
  \<open>mutex::scoped_lock lock(output_mutex)\<close> as the first statement of a function: the
  mutex is held for the body and released when the function returns.
\<close>

definition scoped_lock :: "(world \<Rightarrow> world) \<Rightarrow> world \<Rightarrow> world" where
  "scoped_lock body st = (body (st\<lparr>output_mutex := True\<rparr>))\<lparr>output_mutex := False\<rparr>"

text \<open>The operands a chain of insertions got out before an exception ended it.\<close>

definition put_unfinished :: "ostream \<Rightarrow> item list \<Rightarrow> world \<Rightarrow> world" where
  "put_unfinished s items st =
     (if items = [] then st else perform (Write_unfinished s items (output_mutex st)) st)"

definition initial_world :: world where
  "initial_world = \<lparr>stop_function = None, output_mutex = False, effects = []\<rparr>"

subsection \<open>Signal handling (lines 22 to 68)\<close>

definition invoke :: "stop_action \<Rightarrow> world \<Rightarrow> world" where
  "invoke f st =
     (case f of
        Close_input \<Rightarrow> perform Input_close (perform Stop_function_call st)
      | Close_server \<Rightarrow> perform Server_close (perform Stop_function_call st))"

definition signal_handler :: "int \<Rightarrow> world \<Rightarrow> world" where
  "signal_handler code st =
     (if code = SIGTERM \<or> code = SIGINT \<or> code = SIGABRT then
        (case stop_function st of
           Some f \<Rightarrow>
             (invoke f (put_line Cerr [Str ''Signal caught: stopping...''] st))
               \<lparr>stop_function := None\<rparr>
         | None \<Rightarrow> st)
      else st)"

text \<open>
  \<open>signal_handler\<close> above is the handler run from its first statement to its last. The
  handlers are installed with \<open>signal\<close>, which does not keep the other two signals out
  while one is handled, so a second signal can arrive between two statements of the
  handler and is then handled first, to its end or until it is interrupted in turn. The statements where
  that matters are the test of line 34, the notice of line 36, the call of line 38 and the
  clear of line 39. \<open>statement\<close> executes one of them: it yields the statement to go on
  with (none when the handler returns) and the new state, or nothing at all when the call
  finds \<open>stop_function\<close> empty and \<open>boost::bad_function_call\<close> is thrown.
\<close>

datatype handler_pc = At_test | At_notice | At_call | At_clear

fun statement :: "handler_pc \<Rightarrow> world \<Rightarrow> (handler_pc option \<times> world) option" where
  "statement At_test st =
     Some (if stop_function st = None then None else Some At_notice, st)"
| "statement At_notice st =
     Some (Some At_call, put_line Cerr [Str ''Signal caught: stopping...''] st)"
| "statement At_call st =
     (case stop_function st of
        None \<Rightarrow> None
      | Some f \<Rightarrow> Some (Some At_clear, invoke f st))"
| "statement At_clear st = Some (None, st\<lparr>stop_function := None\<rparr>)"

text \<open>
  Signals over time: a signal arrives, or the innermost handler that is running executes
  its next statement. The handlers that have been entered and have not returned are kept
  as a stack, the innermost first. A signal outside the \<open>switch\<close> of line 29 enters
  and leaves at once.
\<close>

datatype moment = Arrives int | Proceeds

fun signal_step ::
  "moment \<Rightarrow> handler_pc list \<times> world \<Rightarrow> (handler_pc list \<times> world) option" where
  "signal_step (Arrives code) (stack, st) =
     Some (if code = SIGTERM \<or> code = SIGINT \<or> code = SIGABRT then At_test # stack else stack,
           st)"
| "signal_step Proceeds ([], st) = Some ([], st)"
| "signal_step Proceeds (pc # stack, st) =
     (case statement pc st of
        None \<Rightarrow> None
      | Some (None, st') \<Rightarrow> Some (stack, st')
      | Some (Some pc', st') \<Rightarrow> Some (pc' # stack, st'))"

fun signal_steps ::
  "moment list \<Rightarrow> handler_pc list \<times> world \<Rightarrow> (handler_pc list \<times> world) option" where
  "signal_steps [] c = Some c"
| "signal_steps (m # ms) c =
     (case signal_step m c of None \<Rightarrow> None | Some c' \<Rightarrow> signal_steps ms c')"

text \<open>\<open>signal_ok sig\<close> says that \<open>signal(sig, signal_handler)\<close> did not return \<open>SIG_ERR\<close>.\<close>

definition register_signal_handlers :: "(int \<Rightarrow> bool) \<Rightarrow> world \<Rightarrow> bool \<times> world" where
  "register_signal_handlers signal_ok st =
     (if \<not> signal_ok SIGTERM then
        (False, put_line Cerr [Str ''Failed to catch SIGTERM signals.''] st)
      else if \<not> signal_ok SIGINT then
        (False, put_line Cerr [Str ''Failed to catch SIGINT signals.''] st)
      else if \<not> signal_ok SIGABRT then
        (False, put_line Cerr [Str ''Failed to catch SIGABRT signals.''] st)
      else (True, st))"

subsection \<open>Completion handlers and event callbacks (lines 70 to 183)\<close>

definition simple_handler :: "string \<Rightarrow> error_code \<Rightarrow> world \<Rightarrow> world" where
  "simple_handler msg ec =
     scoped_lock (put_line Cout [Str msg, Str '': '', Message ec])"

fun multiple_handler_loop :: "(endpoint \<times> error_code) list \<Rightarrow> world \<Rightarrow> world" where
  "multiple_handler_loop [] st = st"
| "multiple_handler_loop (result # results) st =
     multiple_handler_loop results
       (put_line Cout [Ep (fst result), Str '': '', Message (snd result)] st)"

definition multiple_handler :: "(endpoint \<times> error_code) list \<Rightarrow> world \<Rightarrow> world" where
  "multiple_handler results = scoped_lock (multiple_handler_loop results)"

definition on_hello :: "endpoint \<Rightarrow> bool \<Rightarrow> world \<Rightarrow> bool \<times> world" where
  "on_hello sender default_accept st =
     (default_accept,
      scoped_lock
        (\<lambda>s. perform (Async_introduce_to sender (Simple_handler ''async_introduce_to()''))
               (put_line Cout [Str ''Received HELLO request from '', Ep sender] s))
        st)"

definition on_hello_response ::
  "endpoint \<Rightarrow> error_code \<Rightarrow> time_duration \<Rightarrow> world \<Rightarrow> world" where
  "on_hello_response sender ec duration =
     scoped_lock
       (\<lambda>s. if ec \<noteq> 0 then
               put_line Cout [Str ''Received no HELLO response from '', Ep sender,
                 Str '' after '', Duration duration, Str '': '', Message ec] s
             else
               put_line Cout [Str ''Sending a presentation message to '', Ep sender]
                 (perform (Async_introduce_to sender (Simple_handler ''async_introduce_to()''))
                   (put_line Cout [Str ''Received HELLO response from '', Ep sender,
                      Str '' after '', Duration duration, Str '': '', Message ec] s)))"

definition on_presentation ::
  "endpoint \<Rightarrow> cert_type \<Rightarrow> cert_type \<Rightarrow> bool \<Rightarrow> world \<Rightarrow> bool \<times> world" where
  "on_presentation sender sig_cert enc_cert is_new st =
     (True,
      scoped_lock
        (\<lambda>s. perform
                (Async_request_session sender (Simple_handler ''async_request_session()''))
                (put_line Cout [Str ''Received PRESENTATION from '', Ep sender, Str '' ('',
                   Str (subject_oneline sig_cert), Str '') - '',
                   Str (if is_new then ''new'' else ''existing'')] s))
        st)"

definition on_session_request ::
  "endpoint \<Rightarrow> cipher_algorithm_type list \<Rightarrow> bool \<Rightarrow> world \<Rightarrow> bool \<times> world" where
  "on_session_request sender calgs default_accept st =
     (default_accept,
      scoped_lock (put_line Cout [Str ''Received SESSION_REQUEST from '', Ep sender]) st)"

definition on_session ::
  "endpoint \<Rightarrow> cipher_algorithm_type \<Rightarrow> bool \<Rightarrow> world \<Rightarrow> bool \<times> world" where
  "on_session sender calg default_accept st =
     (default_accept,
      scoped_lock (put_line Cout [Str ''Received SESSION from '', Ep sender]) st)"

definition session_report ::
  "string \<Rightarrow> endpoint \<Rightarrow> bool \<Rightarrow> algorithm_info_type \<Rightarrow> algorithm_info_type \<Rightarrow>
   world \<Rightarrow> world" where
  "session_report headline host is_new local remote s =
     put_line Cout [Str ''Remote algorithms: '', Algorithms remote]
       (put_line Cout [Str ''Local algorithms: '', Algorithms local]
         (put_line Cout [Str ''New session: '', Flag is_new]
           (put_line Cout [Str headline, Ep host] s)))"

definition on_session_failed ::
  "endpoint \<Rightarrow> bool \<Rightarrow> algorithm_info_type \<Rightarrow> algorithm_info_type \<Rightarrow> world \<Rightarrow> world" where
  "on_session_failed host is_new local remote =
     scoped_lock (session_report ''Session failed with '' host is_new local remote)"

definition on_session_established ::
  "endpoint \<Rightarrow> bool \<Rightarrow> algorithm_info_type \<Rightarrow> algorithm_info_type \<Rightarrow> world \<Rightarrow> world" where
  "on_session_established host is_new local remote =
     scoped_lock (session_report ''Session established with '' host is_new local remote)"

definition on_session_lost :: "endpoint \<Rightarrow> world \<Rightarrow> world" where
  "on_session_lost host = scoped_lock (put_line Cout [Str ''Session lost with '', Ep host])"

text \<open>
  \<open>on_data\<close> builds a \<open>std::string\<close> from the \<open>size\<close> bytes of the buffer, whatever they
  are, and writes it: nothing in the body of its \<open>try\<close> block inspects the bytes. Two
  statements of that body can throw a \<open>std::exception\<close>, and whether they do is decided
  outside the sample, so it is a parameter:
  \<^item> taking the mutex (line 176) can throw \<open>boost::lock_error\<close>; nothing is written and the
    mutex is not held;
  \<^item> building the \<open>std::string\<close> (line 178) can throw \<open>std::length_error\<close> or
    \<open>std::bad_alloc\<close>. The operands to the left of the string may have been inserted
    already (all four of them since C++17, any number of them before, where the order of
    evaluation is not fixed); unwinding releases the mutex.
  The insertions themselves do not throw: \<open>std::cout\<close> has no exception mask set.
\<close>

datatype fault =
    No_fault
  | Lock_throws std_exception
  | String_throws std_exception nat

text \<open>
  The body of the \<open>try\<close> block: either an exception together with the state in which it
  reaches the handler, or the state after the body.
\<close>

definition on_data_try ::
  "fault \<Rightarrow> endpoint \<Rightarrow> channel_number_type \<Rightarrow> string \<Rightarrow> world \<Rightarrow>
   (std_exception \<times> world) + world" where
  "on_data_try fault sender channel_number data st =
     (case fault of
        Lock_throws ex \<Rightarrow> Inl (ex, st)
      | String_throws ex inserted \<Rightarrow>
          Inl (ex,
               scoped_lock
                 (put_unfinished Cout
                    (take inserted
                       [Ep sender, Str '' ('', Num (int channel_number), Str ''): '']))
                 st)
      | No_fault \<Rightarrow>
          Inr (scoped_lock
                 (put_line Cout [Ep sender, Str '' ('', Num (int channel_number), Str ''): '',
                    Str data])
                 st))"

text \<open>The \<open>catch (std::exception&)\<close> block is empty: the exception is dropped.\<close>

definition on_data ::
  "fault \<Rightarrow> endpoint \<Rightarrow> channel_number_type \<Rightarrow> string \<Rightarrow> world \<Rightarrow> world" where
  "on_data fault sender channel_number data st =
     (case on_data_try fault sender channel_number data st of
        Inl (ex, st') \<Rightarrow> st'
      | Inr st' \<Rightarrow> st')"

subsection \<open>Reading a whitespace-separated word from a string stream\<close>

text \<open>\<open>std::isspace\<close> in the classic locale: space, and the control characters 9 to 13.\<close>

definition isspace :: "char \<Rightarrow> bool" where
  "isspace c \<longleftrightarrow> c \<in> set [CHR 0x20, CHR 0x09, CHR 0x0A, CHR 0x0B, CHR 0x0C, CHR 0x0D]"

record istringstream =
  buf :: string
  eofbit :: bool
  failbit :: bool

definition istringstream_of :: "string \<Rightarrow> istringstream" where
  "istringstream_of s = \<lparr>buf = s, eofbit = False, failbit = False\<rparr>"

text \<open>
  \<open>iss >> str\<close> for a \<open>std::string\<close>. The sentry fails, setting \<open>failbit\<close>, when the stream
  is not good or when skipping the leading whitespace reaches the end; \<open>str\<close> is then left
  as it was. Otherwise \<open>str\<close> receives the characters up to the next whitespace or the
  end, and reaching the end sets \<open>eofbit\<close>.
\<close>

definition extract_word :: "istringstream \<Rightarrow> string \<Rightarrow> istringstream \<times> string" where
  "extract_word iss str =
     (if eofbit iss \<or> failbit iss then (iss\<lparr>failbit := True\<rparr>, str)
      else
        let skipped = dropWhile isspace (buf iss) in
        if skipped = [] then (iss\<lparr>buf := [], eofbit := True, failbit := True\<rparr>, str)
        else
          let rest = dropWhile (\<lambda>c. \<not> isspace c) skipped in
          (iss\<lparr>buf := rest, eofbit := (rest = [])\<rparr>, takeWhile (\<lambda>c. \<not> isspace c) skipped))"

subsection \<open>The command dispatcher (lines 185 to 245)\<close>

text \<open>
  \<open>line[0]\<close> on a \<open>std::string\<close>: the first character, and the terminating null
  character when the string is empty.
\<close>

definition at0 :: "string \<Rightarrow> char" where
  "at0 line = (case line of [] \<Rightarrow> CHR 0x00 | c # cs \<Rightarrow> c)"

text \<open>
  The resolver belongs to Boost.Asio. \<open>*resolver.resolve(query)\<close> either throws or yields
  the first endpoint of a non-empty result, so the resolver is a parameter from
  host and service to an exception or an endpoint.
\<close>

type_synonym resolver = "string \<Rightarrow> string \<Rightarrow> std_exception + endpoint"

text \<open>
  \<open>line.substr(1)\<close> is evaluated only when \<open>line[0]\<close> is the marker, hence on a line of
  at least one character, where it cannot throw and is \<open>drop 1\<close>.
\<close>

definition handle_read_line :: "resolver \<Rightarrow> string \<Rightarrow> world \<Rightarrow> world" where
  "handle_read_line resolve line st =
     (if at0 line = CHR ''!'' then
        let (iss1, command) = extract_word (istringstream_of (drop 1 line)) [] in
        if \<not> failbit iss1 then
          if command = ''connect'' then
            let (iss2, host) = extract_word iss1 [];
                (iss3, port) = extract_word iss2 []
            in (case resolve host port of
                  Inr ep \<Rightarrow>
                    put_line Cout [Str ''Contacting '', Ep ep, Str ''...'']
                      (perform (Async_greet ep (On_hello_response ep)) st)
                | Inl ex \<Rightarrow>
                    put_line Cerr
                      [Str ''Unable to resolve the specified host/port: '', What ex] st)
          else if command = ''quit'' \<or> command = ''exit'' then perform Server_close st
          else st
        else st
      else perform (Async_send_data_to_all CHANNEL_NUMBER_0 line Multiple_handler) st)"

text \<open>
  \<open>handle_read_input\<close> receives the error code, the contents of the input buffer and the
  number of bytes up to and including the delimiter. It returns the remaining buffer with
  the state. With a clear error code and a length of 0 the subtraction \<open>length - 1\<close> wraps
  around in \<open>size_t\<close> and the string constructor throws; that is the result \<open>None\<close>.
\<close>

definition handle_read_input ::
  "resolver \<Rightarrow> error_code \<Rightarrow> string \<Rightarrow> nat \<Rightarrow> world \<Rightarrow> (string \<times> world) option" where
  "handle_read_input resolve ec input_buffer len st =
     (if ec = 0 then
        if len = 0 then None
        else
          let line = take (len - 1) input_buffer @
                     replicate (len - 1 - length input_buffer) (CHR 0x00);
              remaining = drop 1 (drop (len - 1) input_buffer)
          in Some (remaining,
                   perform (Async_read_until Handle_read_input)
                     (handle_read_line resolve line st))
      else Some (input_buffer, perform Server_close st))"

text \<open>Running a bound completion handler on the result the engine delivers.\<close>

datatype completion =
    Result error_code
  | Greet_result error_code time_duration
  | Results "(endpoint \<times> error_code) list"
  | Read_result error_code string nat

fun complete :: "resolver \<Rightarrow> handler \<Rightarrow> completion \<Rightarrow> world \<Rightarrow> world option" where
  "complete resolve (Simple_handler msg) (Result ec) st = Some (simple_handler msg ec st)"
| "complete resolve Multiple_handler (Results results) st = Some (multiple_handler results st)"
| "complete resolve (On_hello_response ep) (Greet_result ec duration) st =
     Some (on_hello_response ep ec duration st)"
| "complete resolve Handle_read_input (Read_result ec input_buffer len) st =
     map_option snd (handle_read_input resolve ec input_buffer len st)"
| "complete resolve h c st = None"

subsection \<open>What happens while the workers run\<close>

text \<open>
  The events that reach the sample's own code between the creation of the workers and
  their join: a signal, the completion of the asynchronous read of standard input (where
  stream descriptors exist), and a line posted by the blocking reader (where they do not).
\<close>

datatype event =
    Signal int
  | Read_completed error_code string nat
  | Posted_line string

fun step :: "resolver \<Rightarrow> event \<Rightarrow> world \<Rightarrow> world option" where
  "step resolve (Signal code) st = Some (signal_handler code st)"
| "step resolve (Read_completed ec input_buffer len) st =
     map_option snd (handle_read_input resolve ec input_buffer len st)"
| "step resolve (Posted_line line) st = Some (handle_read_line resolve line st)"

text \<open>
  In a run the events are handled one at a time, each to its end before the next: a
  signal is \<open>signal_handler\<close> from its first statement to its last. A signal that arrives
  while a handler is running is the matter of \<open>signal_steps\<close>. An exception that leaves a
  handler ends the run.
\<close>

fun run :: "resolver \<Rightarrow> event list \<Rightarrow> world \<Rightarrow> world" where
  "run resolve [] st = st"
| "run resolve (e # es) st =
     (case step resolve e st of None \<Rightarrow> st | Some st' \<Rightarrow> run resolve es st')"

subsection \<open>Program entry (lines 249 to 349)\<close>

text \<open>
  \<open>THREAD_COUNT\<close> is an \<open>unsigned int\<close>; the loop counter is a \<open>std::size_t\<close>, which is
  at least as wide, so it reaches \<open>THREAD_COUNT\<close> without wrapping.
\<close>

function create_threads :: "nat \<Rightarrow> 32 word \<Rightarrow> world \<Rightarrow> world" where
  "create_threads i THREAD_COUNT st =
     (if i < unat THREAD_COUNT
      then create_threads (i + 1) THREAD_COUNT (perform Create_thread st)
      else st)"
  by pat_completeness auto
termination
  by (relation "measure (\<lambda>(i, n, st). unat n - i)") auto

declare create_threads.simps [simp del]

text \<open>
  The environment of one run: what the calls into the C library, Boost and the engine
  return. \<open>descriptors\<close> says whether \<open>BOOST_ASIO_HAS_POSIX_STREAM_DESCRIPTOR\<close> is defined.
\<close>

record env =
  signal_ok :: "int \<Rightarrow> bool"
  lexical_cast :: "string \<Rightarrow> std_exception + cipher_algorithm_type"
  resolve_of :: resolver
  load_certificate :: "string \<Rightarrow> std_exception + cert_type"
  load_private_key :: "string \<Rightarrow> std_exception + string"
  common_name :: "cert_type \<Rightarrow> std_exception + string"
  server_open :: "endpoint \<Rightarrow> std_exception option"
  hardware_concurrency :: "32 word"
  descriptors :: bool

definition main_catch :: "std_exception \<Rightarrow> world \<Rightarrow> int option \<times> world" where
  "main_catch ex st = (Some EXIT_FAILURE, put_line Cerr [Str ''Error: '', What ex] st)"

text \<open>
  Lines 300 to 339. \<open>events\<close> is \<open>None\<close> when the workers never finish, so that
  \<open>join_all\<close> does not return and the process has no exit status.
\<close>

definition main_serve :: "env \<Rightarrow> event list option \<Rightarrow> world \<Rightarrow> int option \<times> world" where
  "main_serve e events st =
     (let THREAD_COUNT = hardware_concurrency e;
          st1 = put_line Cout [Str ''Chat started. Type !quit to exit.''] st;
          st2 = put_line Cout
                  [Str ''Starting client with '', Num (uint THREAD_COUNT), Str '' thread(s).'']
                  st1;
          st3 = create_threads 0 THREAD_COUNT st2;
          st4 = (if descriptors e then
                   (perform (Async_read_until Handle_read_input) st3)
                     \<lparr>stop_function := Some Close_input\<rparr>
                 else
                   put_line Cout
                     [Str ''No POSIX stream descriptors available. Press Ctrl+C twice to exit.'']
                     (st3\<lparr>stop_function := Some Close_server\<rparr>))
      in case events of
           None \<Rightarrow> (None, st4)
         | Some es \<Rightarrow>
             (Some EXIT_SUCCESS,
              put_line Cout [Str ''Chat closing...'']
                ((perform Join_all (run (resolve_of e) es st4))\<lparr>stop_function := None\<rparr>)))"

definition usage :: string where
  "usage = ''Usage: schat <certificate> <private_key> <listen_host> <listen_port> <calg> <mdalg>''"

text \<open>\<open>argc\<close> is the length of \<open>argv\<close>, the program name included.\<close>

definition main :: "env \<Rightarrow> string list \<Rightarrow> event list option \<Rightarrow> int option \<times> world" where
  "main e argv events =
     (let st = snd (register_signal_handlers (signal_ok e) initial_world) in
      if int (length argv) \<noteq> 7 then (Some EXIT_FAILURE, put_line Cerr [Str usage] st)
      else
        (case lexical_cast e (argv ! 5) of
           Inl ex \<Rightarrow> main_catch ex st
         | Inr calg \<Rightarrow>
        (case resolve_of e (argv ! 3) (argv ! 4) of
           Inl ex \<Rightarrow> main_catch ex st
         | Inr listen_ep \<Rightarrow>
        (case load_certificate e (argv ! 1) of
           Inl ex \<Rightarrow> main_catch ex st
         | Inr certificate \<Rightarrow>
        (case load_private_key e (argv ! 2) of
           Inl ex \<Rightarrow> main_catch ex st
         | Inr private_key \<Rightarrow>
        (case common_name e certificate of
           Inl ex \<Rightarrow> main_catch ex st
         | Inr local_name \<Rightarrow>
        (let st1 = perform (Set_cipher_capabilities [calg]) st in
         case server_open e listen_ep of
           Some ex \<Rightarrow> main_catch ex st1
         | None \<Rightarrow>
             main_serve e events
               (perform Set_callbacks (perform (Server_open listen_ep) st1)))))))))"

subsection \<open>Vocabulary of the specification\<close>

text \<open>
  The specification speaks of the tokens of a line. \<open>words_ws\<close> splits a string at
  whitespace; it is used only to state which lines a theorem is about, and the lemmas
  below relate it to what \<open>extract_word\<close> reads.
\<close>

function words_ws :: "string \<Rightarrow> string list" where
  "words_ws s =
     (let skipped = dropWhile isspace s in
      if skipped = [] then []
      else takeWhile (\<lambda>c. \<not> isspace c) skipped #
           words_ws (dropWhile (\<lambda>c. \<not> isspace c) skipped))"
  by pat_completeness auto
termination
proof (relation "measure length")
  show "wf (measure length)" by simp
next
  fix s skipped :: string
  assume sk: "skipped = dropWhile isspace s" and ne: "skipped \<noteq> []"
  from ne obtain c cs where c: "skipped = c # cs" by (cases skipped) auto
  have "dropWhile isspace s = c # cs" using sk c by simp
  then have "\<not> isspace c" by (auto simp: dropWhile_eq_Cons_conv)
  then have "dropWhile (\<lambda>c. \<not> isspace c) skipped = dropWhile (\<lambda>c. \<not> isspace c) cs"
    using c by simp
  moreover have "length (dropWhile (\<lambda>c. \<not> isspace c) cs) \<le> length cs"
    by (rule length_dropWhile_le)
  moreover have "length skipped \<le> length s" using sk by (simp add: length_dropWhile_le)
  ultimately show "(dropWhile (\<lambda>c. \<not> isspace c) skipped, s) \<in> measure length"
    using c by simp
qed

declare words_ws.simps [simp del]

text \<open>The words of a command line, after its marker.\<close>

definition command_words :: "string \<Rightarrow> string list" where
  "command_words line = words_ws (drop 1 line)"

text \<open>The words a stream still has to deliver: none once it is at its end or has failed.\<close>

definition pending :: "istringstream \<Rightarrow> string list" where
  "pending iss = (if eofbit iss \<or> failbit iss then [] else words_ws (buf iss))"

text \<open>The \<open>i\<close>-th argument of a command, empty when there are fewer.\<close>

definition arg :: "nat \<Rightarrow> string list \<Rightarrow> string" where
  "arg i args = (if i < length args then args ! i else [])"

text \<open>How often an effect occurs in the log of a state.\<close>

definition occurrences :: "effect \<Rightarrow> world \<Rightarrow> nat" where
  "occurrences e st = count_list (effects st) e"

text \<open>
  The budget of a state: the invocations of \<open>stop_function\<close> made so far, plus one
  while it is still set.
\<close>

definition budget :: "world \<Rightarrow> nat" where
  "budget st = occurrences Stop_function_call st + (if stop_function st = None then 0 else 1)"

subsection \<open>A sample environment\<close>

text \<open>
  A resolver for the examples: it knows one numeric address with its port, resolves
  \<open>localhost\<close> without a service to port 0, and throws for everything else.
\<close>

definition sample_resolver :: resolver where
  "sample_resolver host service =
     (if host = ''127.0.0.1'' \<and> service = ''12000'' then Inr (Endpoint ''127.0.0.1'' 12000)
      else if host = ''localhost'' \<and> service = [] then Inr (Endpoint ''127.0.0.1'' 0)
      else Inl (Std_exception ''Host not found (authoritative)''))"

definition sample_env :: env where
  "sample_env =
     \<lparr>signal_ok = (\<lambda>sig. True),
      lexical_cast = (\<lambda>s. if s = ''2'' then Inr 2 else Inl (Std_exception ''bad lexical cast'')),
      resolve_of = sample_resolver,
      load_certificate =
        (\<lambda>f. if f = ''alice.crt'' then Inr (Cert ''/CN=alice'')
             else Inl (Std_exception ''No such file or directory'')),
      load_private_key =
        (\<lambda>f. if f = ''alice.key'' then Inr ''alice-key''
             else Inl (Std_exception ''No such file or directory'')),
      common_name = (\<lambda>c. Inr ''alice''),
      server_open = (\<lambda>ep. None),
      hardware_concurrency = 4,
      descriptors = True\<rparr>"

definition sample_argv :: "string list" where
  "sample_argv = [''schat'', ''alice.crt'', ''alice.key'', ''127.0.0.1'', ''12000'', ''2'', ''1'']"

text \<open>The state in which the workers start where stream descriptors exist (line 318).\<close>

definition started :: world where
  "started = initial_world\<lparr>stop_function := Some Close_input\<rparr>"

section \<open>Properties of the embedding\<close>

subsection \<open>Reading words\<close>

lemma words_ws_Nil: "words_ws [] = []"
  by (simp add: words_ws.simps [of "[]"])

lemma pending_istringstream_of: "pending (istringstream_of s) = words_ws s"
  by (simp add: pending_def istringstream_of_def)

lemma extract_word_none:
  assumes "pending iss = []" and "extract_word iss str = (iss', str')"
  shows "str' = str \<and> failbit iss' \<and> pending iss' = []"
  using assms
  by (auto simp: pending_def extract_word_def Let_def words_ws.simps [of "buf iss"]
      split: if_splits)

lemma extract_word_some:
  assumes "pending iss = w # ws" and "extract_word iss str = (iss', str')"
  shows "str' = w \<and> \<not> failbit iss' \<and> pending iss' = ws"
proof -
  let ?skipped = "dropWhile isspace (buf iss)"
  let ?rest = "dropWhile (\<lambda>c. \<not> isspace c) ?skipped"
  from assms(1) have good: "\<not> eofbit iss" "\<not> failbit iss"
    and ww: "words_ws (buf iss) = w # ws"
    by (auto simp: pending_def split: if_splits)
  from ww have ne: "?skipped \<noteq> []"
    and w: "w = takeWhile (\<lambda>c. \<not> isspace c) ?skipped"
    and ws: "ws = words_ws ?rest"
    by (auto simp: words_ws.simps [of "buf iss"] Let_def split: if_splits)
  from assms(2) good ne
  have iss': "iss' = iss\<lparr>buf := ?rest, eofbit := (?rest = [])\<rparr>" and str': "str' = w"
    by (simp_all add: extract_word_def Let_def w prod_eq_iff del: dropWhile_eq_Nil_conv)
  have "pending iss' = ws"
  proof (cases "?rest = []")
    case True
    then have "ws = []" using ws words_ws_Nil by (simp only:)
    with True show ?thesis by (simp add: iss' pending_def del: dropWhile_eq_Nil_conv)
  next
    case False
    then show ?thesis using good by (simp add: iss' pending_def ws del: dropWhile_eq_Nil_conv)
  qed
  with str' iss' good show ?thesis by simp
qed

text \<open>Reading a word into an empty string yields the next pending word, or nothing.\<close>

lemma extract_word_arg:
  assumes "extract_word iss [] = (iss', str')"
  shows "str' = arg 0 (pending iss) \<and> pending iss' = tl (pending iss)
         \<and> (failbit iss' \<longleftrightarrow> pending iss = [])"
proof (cases "pending iss")
  case Nil
  with extract_word_none [OF Nil assms] show ?thesis by (simp add: arg_def)
next
  case (Cons w ws)
  with extract_word_some [OF Cons assms] show ?thesis by (simp add: arg_def)
qed

lemma handle_read_line_marker:
  assumes "at0 line = CHR ''!''"
  shows "handle_read_line resolve line st =
           (case command_words line of
              [] \<Rightarrow> st
            | command # args \<Rightarrow>
                if command = ''connect'' then
                  (case resolve (arg 0 args) (arg 1 args) of
                     Inr ep \<Rightarrow>
                       put_line Cout [Str ''Contacting '', Ep ep, Str ''...'']
                         (perform (Async_greet ep (On_hello_response ep)) st)
                   | Inl ex \<Rightarrow>
                       put_line Cerr
                         [Str ''Unable to resolve the specified host/port: '', What ex] st)
                else if command = ''quit'' \<or> command = ''exit'' then perform Server_close st
                else st)"
proof -
  obtain iss1 command where e1: "extract_word (istringstream_of (drop 1 line)) [] = (iss1, command)"
    by (cases "extract_word (istringstream_of (drop 1 line)) []") auto
  obtain iss2 host where e2: "extract_word iss1 [] = (iss2, host)"
    by (cases "extract_word iss1 []") auto
  obtain iss3 port where e3: "extract_word iss2 [] = (iss3, port)"
    by (cases "extract_word iss2 []") auto
  note f1 = extract_word_arg [OF e1, unfolded pending_istringstream_of, folded command_words_def]
  note f2 = extract_word_arg [OF e2]
  note f3 = extract_word_arg [OF e3]
  have unfold: "handle_read_line resolve line st =
     (if \<not> failbit iss1 then
          if command = ''connect'' then
            (case resolve host port of
                  Inr ep \<Rightarrow>
                    put_line Cout [Str ''Contacting '', Ep ep, Str ''...'']
                      (perform (Async_greet ep (On_hello_response ep)) st)
                | Inl ex \<Rightarrow>
                    put_line Cerr
                      [Str ''Unable to resolve the specified host/port: '', What ex] st)
          else if command = ''quit'' \<or> command = ''exit'' then perform Server_close st
          else st
        else st)"
    using assms by (simp add: handle_read_line_def e1 e2 e3 del: One_nat_def)
  show ?thesis
  proof (cases "command_words line")
    case Nil
    with f1 show ?thesis by (simp add: unfold)
  next
    case (Cons c args)
    with f1 have c: "command = c" "\<not> failbit iss1" "pending iss1 = args"
      by (simp_all add: arg_def)
    from f2 f3 c have "host = arg 0 args" "port = arg 1 args"
      by (cases args; simp add: arg_def; cases "tl args"; simp)+
    with c Cons show ?thesis by (simp add: unfold)
  qed
qed


subsection \<open>What the dispatcher leaves alone\<close>

lemma handle_read_line_stop_function:
  "stop_function (handle_read_line resolve line st) = stop_function st"
  by (simp add: handle_read_line_def Let_def perform_def put_line_def
      split: prod.splits sum.splits)

lemma handle_read_line_occurrences_stop:
  "occurrences Stop_function_call (handle_read_line resolve line st) = occurrences Stop_function_call st"
  by (simp add: handle_read_line_def Let_def perform_def put_line_def occurrences_def
      split: prod.splits sum.splits)

lemma handle_read_line_occurrences_create:
  "occurrences Create_thread (handle_read_line resolve line st) = occurrences Create_thread st"
  by (simp add: handle_read_line_def Let_def perform_def put_line_def occurrences_def
      split: prod.splits sum.splits)

lemma handle_read_input_stop_function:
  "handle_read_input resolve ec input_buffer len st = Some (b, st') \<Longrightarrow>
   stop_function st' = stop_function st"
  by (auto simp: handle_read_input_def Let_def perform_def handle_read_line_stop_function
      split: if_splits)

lemma handle_read_input_occurrences_stop:
  "handle_read_input resolve ec input_buffer len st = Some (b, st') \<Longrightarrow>
   occurrences Stop_function_call st' = occurrences Stop_function_call st"
  using handle_read_line_occurrences_stop
  by (auto simp: handle_read_input_def Let_def perform_def occurrences_def split: if_splits)

lemma handle_read_input_occurrences_create:
  "handle_read_input resolve ec input_buffer len st = Some (b, st') \<Longrightarrow>
   occurrences Create_thread st' = occurrences Create_thread st"
  using handle_read_line_occurrences_create
  by (auto simp: handle_read_input_def Let_def perform_def occurrences_def split: if_splits)

lemma signal_handler_occurrences_create:
  "occurrences Create_thread (signal_handler code st) = occurrences Create_thread st"
  by (simp add: signal_handler_def invoke_def perform_def put_line_def occurrences_def
      split: option.splits stop_action.splits)

lemma signal_handler_budget: "budget (signal_handler code st) = budget st"
  by (simp add: budget_def signal_handler_def invoke_def perform_def put_line_def occurrences_def
      split: option.splits stop_action.splits)

lemma step_budget: "step resolve e st = Some st' \<Longrightarrow> budget st' = budget st"
proof (cases e)
  case (Signal code)
  assume "step resolve e st = Some st'"
  with Signal show ?thesis by (auto simp: signal_handler_budget)
next
  case (Read_completed ec input_buffer len)
  assume "step resolve e st = Some st'"
  with Read_completed obtain b where
    "handle_read_input resolve ec input_buffer len st = Some (b, st')" by auto
  then show ?thesis
    by (simp add: budget_def handle_read_input_stop_function handle_read_input_occurrences_stop)
next
  case (Posted_line line)
  assume "step resolve e st = Some st'"
  with Posted_line show ?thesis
    by (auto simp: budget_def handle_read_line_stop_function handle_read_line_occurrences_stop)
qed

lemma run_budget: "budget (run resolve events st) = budget st"
proof (induction events arbitrary: st)
  case Nil
  show ?case by simp
next
  case (Cons e events)
  show ?case
  proof (cases "step resolve e st")
    case None
    then show ?thesis by simp
  next
    case (Some st')
    with Cons.IH [of st'] step_budget [OF Some] show ?thesis by simp
  qed
qed

lemma step_stop_function_None:
  assumes "step resolve e st = Some st'" and "stop_function st = None"
  shows "stop_function st' = None"
proof (cases e)
  case (Signal code)
  with assms show ?thesis by (auto simp: signal_handler_def)
next
  case (Read_completed ec input_buffer len)
  with assms obtain b where
    "handle_read_input resolve ec input_buffer len st = Some (b, st')" by auto
  with assms(2) show ?thesis by (simp add: handle_read_input_stop_function)
next
  case (Posted_line line)
  with assms show ?thesis by (auto simp: handle_read_line_stop_function)
qed

lemma run_stop_function_None:
  "stop_function st = None \<Longrightarrow> stop_function (run resolve events st) = None"
proof (induction events arbitrary: st)
  case Nil
  then show ?case by simp
next
  case (Cons e events)
  show ?case
  proof (cases "step resolve e st")
    case None
    with Cons.prems show ?thesis by simp
  next
    case (Some st')
    from step_stop_function_None [OF Some Cons.prems] have "stop_function st' = None" .
    with Cons.IH [of st'] Some show ?thesis by simp
  qed
qed

lemma step_occurrences_create:
  "step resolve e st = Some st' \<Longrightarrow> occurrences Create_thread st' = occurrences Create_thread st"
  by (cases e) (auto simp: signal_handler_occurrences_create handle_read_line_occurrences_create
      handle_read_input_occurrences_create)

lemma run_occurrences_create: "occurrences Create_thread (run resolve events st) = occurrences Create_thread st"
proof (induction events arbitrary: st)
  case Nil
  show ?case by simp
next
  case (Cons e events)
  show ?case
  proof (cases "step resolve e st")
    case None
    then show ?thesis by simp
  next
    case (Some st')
    with Cons.IH [of st'] step_occurrences_create [OF Some] show ?thesis by simp
  qed
qed

lemma create_threads_occurrences:
  "occurrences Create_thread (create_threads i n st) = occurrences Create_thread st + (unat n - i)"
proof (induction i n st rule: create_threads.induct)
  case (1 i n st)
  show ?case
  proof (cases "i < unat n")
    case True
    with "1" show ?thesis
      by (simp add: create_threads.simps [of i] perform_def occurrences_def)
  next
    case False
    then show ?thesis by (simp add: create_threads.simps [of i])
  qed
qed


subsection \<open>Counting effects\<close>

lemma occurrences_perform: "occurrences x (perform e st) = occurrences x st + (if e = x then 1 else 0)"
  by (simp add: occurrences_def perform_def)

lemma occurrences_put_line:
  "occurrences x (put_line s items st) = occurrences x st + (if Write s items (output_mutex st) = x then 1 else 0)"
  by (simp add: put_line_def occurrences_perform)

lemma occurrences_stop_function_update: "occurrences x (st\<lparr>stop_function := v\<rparr>) = occurrences x st"
  by (simp add: occurrences_def)

lemma register_signal_handlers_state:
  "stop_function (snd (register_signal_handlers ok initial_world)) = None
   \<and> output_mutex (snd (register_signal_handlers ok initial_world)) = False
   \<and> (\<forall>x \<in> set (effects (snd (register_signal_handlers ok initial_world))).
        \<exists>items. x = Write Cerr items False)"
  by (simp add: register_signal_handlers_def initial_world_def put_line_def perform_def)

lemma main_serve_status:
  "fst (main_serve e events st) = (case events of None \<Rightarrow> None | Some es \<Rightarrow> Some EXIT_SUCCESS)"
  by (simp add: main_serve_def Let_def split: option.splits)

lemma main_serve_stop_function:
  "stop_function (snd (main_serve e events st)) =
     (case events of
        None \<Rightarrow> Some (if descriptors e then Close_input else Close_server)
      | Some es \<Rightarrow> None)"
  by (simp add: main_serve_def Let_def put_line_def perform_def split: option.splits)

subsection \<open>The event callbacks write under the mutex\<close>

lemma callbacks_hold_mutex:
  "effects (simple_handler msg ec st) = effects st @ [Write Cout [Str msg, Str '': '', Message ec] True]"
  "effects (snd (on_hello sender default_accept st)) =
     effects st @
     [Write Cout [Str ''Received HELLO request from '', Ep sender] True,
      Async_introduce_to sender (Simple_handler ''async_introduce_to()'')]"
  "effects (snd (on_session_request sender calgs default_accept st)) =
     effects st @ [Write Cout [Str ''Received SESSION_REQUEST from '', Ep sender] True]"
  "effects (snd (on_session sender calg default_accept st)) =
     effects st @ [Write Cout [Str ''Received SESSION from '', Ep sender] True]"
  "effects (on_session_lost sender st) =
     effects st @ [Write Cout [Str ''Session lost with '', Ep sender] True]"
  by (simp_all add: simple_handler_def on_hello_def on_session_request_def on_session_def
      on_session_lost_def scoped_lock_def put_line_def perform_def)

subsection \<open>The signal handler, statement by statement\<close>

lemma signal_handler_set:
  assumes "code = SIGTERM \<or> code = SIGINT \<or> code = SIGABRT" and "stop_function st = Some f"
  shows "signal_handler code st =
           st\<lparr>stop_function := None,
              effects := effects st @
                [Write Cerr [Str ''Signal caught: stopping...''] (output_mutex st),
                 Stop_function_call,
                 case f of Close_input \<Rightarrow> Input_close | Close_server \<Rightarrow> Server_close]\<rparr>"
  using assms
  by (cases f) (auto simp: signal_handler_def invoke_def put_line_def perform_def)

lemma signal_handler_clear: "stop_function st = None \<Longrightarrow> signal_handler code st = st"
  by (simp add: signal_handler_def)

lemma signal_handler_other:
  "code \<noteq> SIGTERM \<Longrightarrow> code \<noteq> SIGINT \<Longrightarrow> code \<noteq> SIGABRT \<Longrightarrow> signal_handler code st = st"
  by (simp add: signal_handler_def)

lemma signal_steps_uninterrupted:
  "signal_steps [Arrives code, Proceeds, Proceeds, Proceeds, Proceeds] ([], st) =
     Some ([], signal_handler code st)"
proof (cases "code = SIGTERM \<or> code = SIGINT \<or> code = SIGABRT")
  case False
  then show ?thesis by (simp add: signal_handler_def)
next
  case True
  show ?thesis
  proof (cases "stop_function st")
    case None
    with True show ?thesis by (auto simp: signal_handler_def)
  next
    case (Some f)
    have "stop_function (put_line Cerr [Str ''Signal caught: stopping...''] st) = Some f"
      using Some by (simp add: put_line_def perform_def)
    with True Some show ?thesis by (auto simp: signal_handler_def)
  qed
qed

subsection \<open>From the start of the program to its end\<close>

lemma create_threads_occurrences_stop:
  "occurrences Stop_function_call (create_threads i n st) = occurrences Stop_function_call st"
proof (induction i n st rule: create_threads.induct)
  case (1 i n st)
  show ?case
  proof (cases "i < unat n")
    case True
    with "1" show ?thesis
      by (simp add: create_threads.simps [of i] perform_def occurrences_def)
  next
    case False
    then show ?thesis by (simp add: create_threads.simps [of i])
  qed
qed

lemma main_serve_started:
  "occurrences Stop_function_call (snd (main_serve e None st)) = occurrences Stop_function_call st"
  by (simp add: main_serve_def Let_def occurrences_perform occurrences_put_line
      occurrences_stop_function_update create_threads_occurrences_stop)

lemma main_serve_finished:
  "effects (snd (main_serve e (Some es) st)) =
     effects (run (resolve_of e) es (snd (main_serve e None st))) @
     [Join_all,
      Write Cout [Str ''Chat closing...'']
        (output_mutex (run (resolve_of e) es (snd (main_serve e None st))))]"
  by (simp add: main_serve_def Let_def put_line_def perform_def)

lemma run_at_most_once:
  "occurrences Stop_function_call (run resolve events st) \<le> occurrences Stop_function_call st + 1"
  using run_budget [of resolve events st] by (simp add: budget_def split: if_splits)

lemma main_serve_at_most_once:
  "occurrences Stop_function_call (snd (main_serve e evs st))
     \<le> occurrences Stop_function_call st + 1"
proof (cases evs)
  case None
  then show ?thesis by (simp add: main_serve_started)
next
  case (Some es)
  have "occurrences Stop_function_call (snd (main_serve e (Some es) st)) =
        occurrences Stop_function_call (run (resolve_of e) es (snd (main_serve e None st)))"
    by (simp add: occurrences_def main_serve_finished)
  also have "\<dots> \<le> occurrences Stop_function_call (snd (main_serve e None st)) + 1"
    by (rule run_at_most_once)
  finally show ?thesis using Some by (simp add: main_serve_started)
qed

lemma only_cerr_no_stop:
  "\<forall>x \<in> set (effects st). \<exists>items. x = Write Cerr items False \<Longrightarrow>
   occurrences Stop_function_call st = 0"
  by (auto simp: occurrences_def count_list_0_iff)

text \<open>
  \<open>main\<close> either fails before the workers are started, with \<open>stop_function\<close> never
  assigned, or goes on to serve from a state in which it has not been invoked.
\<close>

lemma main_failed_or_served:
  "(fst (main e argv evs) = Some EXIT_FAILURE
      \<and> stop_function (snd (main e argv evs)) = None
      \<and> occurrences Stop_function_call (snd (main e argv evs)) = 0)
   \<or> (\<exists>st. occurrences Stop_function_call st = 0 \<and> main e argv evs = main_serve e evs st)"
proof -
  let ?st = "snd (register_signal_handlers (signal_ok e) initial_world)"
  note r = register_signal_handlers_state [of "signal_ok e"]
  have z: "occurrences Stop_function_call ?st = 0"
    using r only_cerr_no_stop by blast
  have n: "stop_function ?st = None" using r by simp
  have failed: "fst (main_catch x s) = Some EXIT_FAILURE
      \<and> stop_function (snd (main_catch x s)) = stop_function s
      \<and> occurrences Stop_function_call (snd (main_catch x s)) = occurrences Stop_function_call s"
    for x s
    by (simp add: main_catch_def put_line_def perform_def occurrences_def)
  have prepared: "occurrences Stop_function_call
      (perform Set_callbacks (perform (Server_open l) (perform (Set_cipher_capabilities c) ?st))) = 0"
    for l c
    using z by (simp add: occurrences_perform)
  have cipher: "stop_function (perform (Set_cipher_capabilities c) ?st) = None
      \<and> occurrences Stop_function_call (perform (Set_cipher_capabilities c) ?st) = 0" for c
    using z n by (simp add: occurrences_perform) (simp add: perform_def)
  show ?thesis
  proof (cases "int (length argv) \<noteq> 7")
    case True
    then have "main e argv evs = (Some EXIT_FAILURE, put_line Cerr [Str usage] ?st)"
      by (simp add: main_def Let_def)
    with z n show ?thesis
      by (simp add: occurrences_put_line) (simp add: put_line_def perform_def)
  next
    case False
    then show ?thesis
      using failed [of _ ?st] failed [of _ "perform (Set_cipher_capabilities _) ?st"]
        z n prepared cipher
      by (simp add: main_def Let_def split: sum.splits option.splits) blast
  qed
qed

lemma main_at_most_once: "occurrences Stop_function_call (snd (main e argv evs)) \<le> 1"
  using main_failed_or_served [of e argv evs] main_serve_at_most_once
  by (metis add_0 zero_le)

lemma main_failed_unassigned:
  assumes "fst (main e argv evs) = Some EXIT_FAILURE"
  shows "stop_function (snd (main e argv evs)) = None
         \<and> occurrences Stop_function_call (snd (main e argv evs)) = 0"
proof -
  from main_failed_or_served [of e argv evs]
  consider (failed) "stop_function (snd (main e argv evs)) = None
         \<and> occurrences Stop_function_call (snd (main e argv evs)) = 0"
    | (served) st where "main e argv evs = main_serve e evs st" by blast
  then show ?thesis
  proof cases
    case failed
    then show ?thesis .
  next
    case served
    with assms have False
      by (simp add: main_serve_status EXIT_FAILURE_def EXIT_SUCCESS_def split: option.splits)
    then show ?thesis ..
  qed
qed

section \<open>The claims of the specification\<close>

text \<open>
  Claim C2. Each of \<open>on_hello\<close>, \<open>on_session_request\<close> and \<open>on_session\<close> returns exactly the
  default decision it was given, for either value of it. \<open>on_presentation\<close> takes no
  default and returns accept for every input; besides its console line it issues exactly
  one asynchronous request-session operation, addressed to the sender.
\<close>

theorem decisions_follow_default:
  "fst (on_hello sender default_accept st) = default_accept
   \<and> fst (on_session_request sender calgs default_accept st) = default_accept
   \<and> fst (on_session sender calg default_accept st) = default_accept
   \<and> fst (on_presentation sender sig_cert enc_cert is_new st) = True
   \<and> effects (snd (on_presentation sender sig_cert enc_cert is_new st)) =
       effects st @
       [Write Cout [Str ''Received PRESENTATION from '', Ep sender, Str '' ('',
          Str (subject_oneline sig_cert), Str '') - '',
          Str (if is_new then ''new'' else ''existing'')] True,
        Async_request_session sender (Simple_handler ''async_request_session()'')]"
  by (simp add: on_hello_def on_session_request_def on_session_def on_presentation_def
      scoped_lock_def put_line_def perform_def)

text \<open>
  Claim C4. For every non-empty line whose first character is not the marker \<open>!\<close>, the
  dispatcher issues exactly one broadcast, on channel number 0, whose payload is the line
  itself, and does nothing else: the new state is the old one with that single call
  appended to the log.
\<close>

theorem text_line_broadcast:
  assumes "line \<noteq> []" and "hd line \<noteq> CHR ''!''"
  shows "handle_read_line resolve line st =
           perform (Async_send_data_to_all CHANNEL_NUMBER_0 line Multiple_handler) st
         \<and> effects (handle_read_line resolve line st) =
           effects st @ [Async_send_data_to_all 0 line Multiple_handler]"
  using assms
  by (cases line) (simp_all add: handle_read_line_def at0_def perform_def CHANNEL_NUMBER_0_def)

text \<open>Claim C4, at the line \<open>hello\<close>.\<close>

theorem text_line_broadcast_witness:
  "''hello'' \<noteq> [] \<and> hd ''hello'' \<noteq> CHR ''!''
   \<and> effects (handle_read_line sample_resolver ''hello'' initial_world) =
       [Async_send_data_to_all 0 ''hello'' Multiple_handler]"
proof -
  have h1: "''hello'' \<noteq> []" by simp
  have h2: "hd ''hello'' \<noteq> CHR ''!''" by simp
  from text_line_broadcast [OF h1 h2, of sample_resolver initial_world] h1 h2
  show ?thesis by (simp add: initial_world_def perform_def CHANNEL_NUMBER_0_def)
qed

text \<open>
  Claim C5 says that a payload that is not valid text produces no console line. The two
  bytes \<open>0xFF 0xFE\<close> are not text in ASCII or UTF-8, and \<open>on_data\<close>, when nothing throws,
  writes them to the console as they are.
\<close>

theorem on_data_counterexample:
  "effects (on_data No_fault (Endpoint ''10.0.0.1'' 12000) 0 [CHR 0xFF, CHR 0xFE] initial_world) =
     [Write Cout [Ep (Endpoint ''10.0.0.1'' 12000), Str '' ('', Num 0, Str ''): '',
        Str [CHR 0xFF, CHR 0xFE]] True]"
  by (simp add: on_data_def on_data_try_def scoped_lock_def put_line_def perform_def
      initial_world_def)

text \<open>
  Claim C5 as amended. \<open>on_data\<close> does not decode or validate. For every payload, text or
  not, when neither taking the mutex nor building the string throws, the body of the
  \<open>try\<close> block completes and the handler writes exactly one console line, under the
  mutex, made of the sender, the channel number and the bytes of the payload unchanged.
  When taking the mutex throws, or building the string throws, the exception reaches the
  empty \<open>catch\<close> and is dropped there: the handler returns, having written no line (at most
  the operands already inserted, without end of line), nothing on the error stream and
  nothing else. In every case \<open>stop_function\<close> is left alone, and the mutex is released
  whenever it was taken.
\<close>

theorem on_data_writes_every_payload:
  "on_data_try No_fault sender channel_number data st =
     Inr (on_data No_fault sender channel_number data st)
   \<and> effects (on_data No_fault sender channel_number data st) =
       effects st @
       [Write Cout [Ep sender, Str '' ('', Num (int channel_number), Str ''): '', Str data] True]
   \<and> output_mutex (on_data No_fault sender channel_number data st) = False
   \<and> on_data_try (Lock_throws ex) sender channel_number data st = Inl (ex, st)
   \<and> on_data (Lock_throws ex) sender channel_number data st = st
   \<and> on_data_try (String_throws ex inserted) sender channel_number data st =
       Inl (ex, on_data (String_throws ex inserted) sender channel_number data st)
   \<and> effects (on_data (String_throws ex inserted) sender channel_number data st) =
       effects st @
       (if inserted = 0 then []
        else [Write_unfinished Cout
                (take inserted [Ep sender, Str '' ('', Num (int channel_number), Str ''): ''])
                True])
   \<and> output_mutex (on_data (String_throws ex inserted) sender channel_number data st) = False
   \<and> stop_function (on_data fault sender channel_number data st) = stop_function st"
  by (cases fault)
     (simp_all add: on_data_def on_data_try_def scoped_lock_def put_line_def put_unfinished_def
       perform_def)

text \<open>
  Claim C3 says that an empty line causes no action. The first character of an empty
  string reads as the null character, which is not the marker, so the empty line takes
  the chat branch and is broadcast as an empty payload.
\<close>

theorem empty_line_counterexample:
  "effects (handle_read_line sample_resolver [] initial_world) =
     [Async_send_data_to_all 0 [] Multiple_handler]"
  by (simp add: handle_read_line_def at0_def perform_def initial_world_def CHANNEL_NUMBER_0_def)

text \<open>
  Claim C3 as amended. A line that starts with the marker \<open>!\<close> and has no word after it,
  or whose first word is none of \<open>connect\<close>, \<open>quit\<close> and \<open>exit\<close>, leaves the state as it
  was: no broadcast, no greet, no close and no console output. The empty line is not
  ignored: it is broadcast on channel 0 with an empty payload.
\<close>

theorem unrecognized_command_ignored:
  "(at0 line = CHR ''!'' \<longrightarrow>
      (case command_words line of
         [] \<Rightarrow> True
       | command # args \<Rightarrow> command \<noteq> ''connect'' \<and> command \<noteq> ''quit'' \<and> command \<noteq> ''exit'') \<longrightarrow>
      handle_read_line resolve line st = st)
   \<and> handle_read_line resolve [] st =
       perform (Async_send_data_to_all CHANNEL_NUMBER_0 [] Multiple_handler) st"
proof (intro conjI impI)
  assume m: "at0 line = CHR ''!''"
    and w: "case command_words line of [] \<Rightarrow> True
            | command # args \<Rightarrow> command \<noteq> ''connect'' \<and> command \<noteq> ''quit'' \<and> command \<noteq> ''exit''"
  from w show "handle_read_line resolve line st = st"
    by (simp add: handle_read_line_marker [OF m] split: list.splits)
next
  show "handle_read_line resolve [] st =
          perform (Async_send_data_to_all CHANNEL_NUMBER_0 [] Multiple_handler) st"
    by (simp add: handle_read_line_def at0_def)
qed

text \<open>Claim C3 as amended, at the lines \<open>!help me\<close> and \<open>!\<close> followed by two spaces.\<close>

theorem unrecognized_command_ignored_witness:
  "at0 ''!help me'' = CHR ''!'' \<and> command_words ''!help me'' = [''help'', ''me'']
   \<and> handle_read_line sample_resolver ''!help me'' started = started
   \<and> at0 ''!  '' = CHR ''!'' \<and> command_words ''!  '' = []
   \<and> handle_read_line sample_resolver ''!  '' started = started"
proof -
  have h1: "at0 ''!help me'' = CHR ''!''" by (simp add: at0_def)
  have h2: "command_words ''!help me'' = [''help'', ''me'']" by code_simp
  have h3: "at0 ''!  '' = CHR ''!''" by (simp add: at0_def)
  have h4: "command_words ''!  '' = []" by code_simp
  from unrecognized_command_ignored [of "''!help me''" sample_resolver started] h1 h2
  have "handle_read_line sample_resolver ''!help me'' started = started" by simp
  moreover
  from unrecognized_command_ignored [of "''!  ''" sample_resolver started] h3 h4
  have "handle_read_line sample_resolver ''!  '' started = started" by simp
  ultimately show ?thesis using h1 h2 h3 h4 by simp
qed


text \<open>
  Claim C7. For every line made of the marker, the word \<open>connect\<close>, a host and a port
  (and possibly more words): when the resolver yields an endpoint, exactly one
  asynchronous greet is issued to that endpoint, bound to a continuation that runs
  \<open>on_hello_response\<close> for the same endpoint, followed by the console line; when the
  resolver throws, the exception is reported on the error stream and no greet is issued.
  In both cases the dispatcher returns, with \<open>stop_function\<close> and the mutex as they were.
\<close>

theorem connect_command:
  assumes "at0 line = CHR ''!''"
    and "command_words line = ''connect'' # host # port # others"
  shows "(resolve host port = Inr ep \<longrightarrow>
            effects (handle_read_line resolve line st) =
              effects st @
              [Async_greet ep (On_hello_response ep),
               Write Cout [Str ''Contacting '', Ep ep, Str ''...''] (output_mutex st)]
            \<and> complete resolve (On_hello_response ep) (Greet_result ec duration) st' =
                Some (on_hello_response ep ec duration st'))
         \<and> (resolve host port = Inl ex \<longrightarrow>
            effects (handle_read_line resolve line st) =
              effects st @
              [Write Cerr [Str ''Unable to resolve the specified host/port: '', What ex]
                 (output_mutex st)])
         \<and> stop_function (handle_read_line resolve line st) = stop_function st
         \<and> output_mutex (handle_read_line resolve line st) = output_mutex st"
  by (simp add: handle_read_line_marker [OF assms(1)] assms(2) arg_def put_line_def perform_def
      split: sum.splits)

text \<open>
  Claim C7, at \<open>!connect 127.0.0.1 12000\<close>, which resolves, and at
  \<open>!connect example.org 80\<close>, which does not.
\<close>

theorem connect_command_witness:
  "at0 ''!connect 127.0.0.1 12000'' = CHR ''!''
   \<and> command_words ''!connect 127.0.0.1 12000'' = [''connect'', ''127.0.0.1'', ''12000'']
   \<and> sample_resolver ''127.0.0.1'' ''12000'' = Inr (Endpoint ''127.0.0.1'' 12000)
   \<and> effects (handle_read_line sample_resolver ''!connect 127.0.0.1 12000'' started) =
       [Async_greet (Endpoint ''127.0.0.1'' 12000) (On_hello_response (Endpoint ''127.0.0.1'' 12000)),
        Write Cout [Str ''Contacting '', Ep (Endpoint ''127.0.0.1'' 12000), Str ''...''] False]
   \<and> at0 ''!connect example.org 80'' = CHR ''!''
   \<and> command_words ''!connect example.org 80'' = [''connect'', ''example.org'', ''80'']
   \<and> sample_resolver ''example.org'' ''80'' = Inl (Std_exception ''Host not found (authoritative)'')
   \<and> effects (handle_read_line sample_resolver ''!connect example.org 80'' started) =
       [Write Cerr [Str ''Unable to resolve the specified host/port: '',
          What (Std_exception ''Host not found (authoritative)'')] False]"
proof -
  have a1: "at0 ''!connect 127.0.0.1 12000'' = CHR ''!''" by (simp add: at0_def)
  have a2: "command_words ''!connect 127.0.0.1 12000'' = ''connect'' # ''127.0.0.1'' # ''12000'' # []"
    by code_simp
  have a3: "sample_resolver ''127.0.0.1'' ''12000'' = Inr (Endpoint ''127.0.0.1'' 12000)"
    by (simp add: sample_resolver_def)
  have b1: "at0 ''!connect example.org 80'' = CHR ''!''" by (simp add: at0_def)
  have b2: "command_words ''!connect example.org 80'' = ''connect'' # ''example.org'' # ''80'' # []"
    by code_simp
  have b3: "sample_resolver ''example.org'' ''80'' = Inl (Std_exception ''Host not found (authoritative)'')"
    by (simp add: sample_resolver_def)
  from connect_command [OF a1 a2, of sample_resolver "Endpoint ''127.0.0.1'' 12000" started] a3
  have a4: "effects (handle_read_line sample_resolver ''!connect 127.0.0.1 12000'' started) =
       [Async_greet (Endpoint ''127.0.0.1'' 12000) (On_hello_response (Endpoint ''127.0.0.1'' 12000)),
        Write Cout [Str ''Contacting '', Ep (Endpoint ''127.0.0.1'' 12000), Str ''...''] False]"
    by (simp add: started_def initial_world_def)
  from connect_command [OF b1 b2, of sample_resolver _ started _ _ _
      "Std_exception ''Host not found (authoritative)''"] b3
  have b4: "effects (handle_read_line sample_resolver ''!connect example.org 80'' started) =
       [Write Cerr [Str ''Unable to resolve the specified host/port: '',
          What (Std_exception ''Host not found (authoritative)'')] False]"
    by (simp add: started_def initial_world_def)
  from a1 a2 a3 a4 b1 b2 b3 b4 show ?thesis by simp
qed

text \<open>
  Claim C10 says that \<open>!connect\<close> with fewer than two words after it is always reported
  as a resolution error and never greets. The dispatcher does not count the words: it
  hands the host and an empty service to the resolver, and a resolver that accepts a host
  without a service (as \<open>getaddrinfo\<close> does, answering with port 0) makes it greet.
\<close>

theorem short_connect_counterexample:
  "effects (handle_read_line sample_resolver ''!connect localhost'' initial_world) =
     [Async_greet (Endpoint ''127.0.0.1'' 0) (On_hello_response (Endpoint ''127.0.0.1'' 0)),
      Write Cout [Str ''Contacting '', Ep (Endpoint ''127.0.0.1'' 0), Str ''...''] False]"
proof -
  have m: "at0 ''!connect localhost'' = CHR ''!''" by (simp add: at0_def)
  have w: "command_words ''!connect localhost'' = [''connect'', ''localhost'']" by code_simp
  show ?thesis
    by (simp add: handle_read_line_marker [OF m] w arg_def sample_resolver_def put_line_def
        perform_def initial_world_def)
qed

text \<open>
  Claim C10 as amended. For every line \<open>!connect\<close> with fewer than two words after it,
  the missing host and port are empty strings and are handed to the resolver as such.
  What follows is decided by the resolver alone: when it throws, the exception is
  reported on the error stream, no greet is issued and the dispatcher returns; when it
  yields an endpoint, that endpoint is greeted.
\<close>

theorem short_connect_resolves_empty_strings:
  assumes "at0 line = CHR ''!''"
    and "command_words line = ''connect'' # args"
    and "length args < 2"
  shows "(resolve (arg 0 args) [] = Inl ex \<longrightarrow>
            effects (handle_read_line resolve line st) =
              effects st @
              [Write Cerr [Str ''Unable to resolve the specified host/port: '', What ex]
                 (output_mutex st)])
         \<and> (resolve (arg 0 args) [] = Inr ep \<longrightarrow>
            effects (handle_read_line resolve line st) =
              effects st @
              [Async_greet ep (On_hello_response ep),
               Write Cout [Str ''Contacting '', Ep ep, Str ''...''] (output_mutex st)])
         \<and> (args = [] \<longrightarrow> arg 0 args = [])
         \<and> stop_function (handle_read_line resolve line st) = stop_function st"
  using assms(3)
  by (simp add: handle_read_line_marker [OF assms(1)] assms(2) arg_def put_line_def perform_def
      split: sum.splits)

text \<open>
  Claim C10 as amended, at \<open>!connect\<close>, which the sample resolver refuses, and at
  \<open>!connect localhost\<close>, which it resolves.
\<close>

theorem short_connect_resolves_empty_strings_witness:
  "at0 ''!connect'' = CHR ''!'' \<and> command_words ''!connect'' = ''connect'' # []
   \<and> length ([] :: string list) < 2
   \<and> sample_resolver [] [] = Inl (Std_exception ''Host not found (authoritative)'')
   \<and> effects (handle_read_line sample_resolver ''!connect'' started) =
       [Write Cerr [Str ''Unable to resolve the specified host/port: '',
          What (Std_exception ''Host not found (authoritative)'')] False]
   \<and> at0 ''!connect localhost'' = CHR ''!''
   \<and> command_words ''!connect localhost'' = ''connect'' # [''localhost'']
   \<and> length [''localhost''] < 2
   \<and> sample_resolver ''localhost'' [] = Inr (Endpoint ''127.0.0.1'' 0)
   \<and> effects (handle_read_line sample_resolver ''!connect localhost'' started) =
       [Async_greet (Endpoint ''127.0.0.1'' 0) (On_hello_response (Endpoint ''127.0.0.1'' 0)),
        Write Cout [Str ''Contacting '', Ep (Endpoint ''127.0.0.1'' 0), Str ''...''] False]"
proof -
  have a1: "at0 ''!connect'' = CHR ''!''" by (simp add: at0_def)
  have a2: "command_words ''!connect'' = ''connect'' # []" by code_simp
  have a3: "length ([] :: string list) < 2" by simp
  have a4: "sample_resolver [] [] = Inl (Std_exception ''Host not found (authoritative)'')"
    by (simp add: sample_resolver_def)
  have b1: "at0 ''!connect localhost'' = CHR ''!''" by (simp add: at0_def)
  have b2: "command_words ''!connect localhost'' = ''connect'' # [''localhost'']" by code_simp
  have b3: "length [''localhost''] < 2" by simp
  have b4: "sample_resolver ''localhost'' [] = Inr (Endpoint ''127.0.0.1'' 0)"
    by (simp add: sample_resolver_def)
  from short_connect_resolves_empty_strings [OF a1 a2 a3, of sample_resolver
      "Std_exception ''Host not found (authoritative)''" started] a4
  have a5: "effects (handle_read_line sample_resolver ''!connect'' started) =
       [Write Cerr [Str ''Unable to resolve the specified host/port: '',
          What (Std_exception ''Host not found (authoritative)'')] False]"
    by (simp add: arg_def started_def initial_world_def)
  from short_connect_resolves_empty_strings [OF b1 b2 b3, of sample_resolver _ started
      "Endpoint ''127.0.0.1'' 0"] b4
  have b5: "effects (handle_read_line sample_resolver ''!connect localhost'' started) =
       [Async_greet (Endpoint ''127.0.0.1'' 0) (On_hello_response (Endpoint ''127.0.0.1'' 0)),
        Write Cout [Str ''Contacting '', Ep (Endpoint ''127.0.0.1'' 0), Str ''...''] False]"
    by (simp add: arg_def started_def initial_world_def)
  from a1 a2 a3 a4 a5 b1 b2 b3 b4 b5 show ?thesis by simp
qed

text \<open>
  Claim C8 requires every console write to happen while \<open>output_mutex\<close> is held. All the
  event callbacks and completion handlers take the mutex (\<open>callbacks_hold_mutex\<close>), but
  the dispatcher, which runs on the same workers, does not: at the line
  \<open>!connect 127.0.0.1 12000\<close> it writes its \<open>Contacting\<close> line to the standard output
  without holding the mutex.
\<close>

theorem contacting_written_without_mutex:
  "Write Cout [Str ''Contacting '', Ep (Endpoint ''127.0.0.1'' 12000), Str ''...''] False
     \<in> set (effects (handle_read_line sample_resolver ''!connect 127.0.0.1 12000'' initial_world))"
proof -
  have m: "at0 ''!connect 127.0.0.1 12000'' = CHR ''!''" by (simp add: at0_def)
  have w: "command_words ''!connect 127.0.0.1 12000'' = [''connect'', ''127.0.0.1'', ''12000'']"
    by code_simp
  show ?thesis
    by (simp add: handle_read_line_marker [OF m] w arg_def sample_resolver_def put_line_def
        perform_def initial_world_def)
qed


text \<open>
  Claim C1 says that the quit command and the end of the input go through
  \<open>stop_function\<close>, that it is invoked at most once, and that a second shutdown request
  changes nothing, the transport and the input being closed once each. Two \<open>!quit\<close>
  lines read from the input descriptor close the transport twice, never close the input,
  and leave \<open>stop_function\<close> set: it was not invoked. A read that fails at the end of the
  input closes the transport and leaves \<open>stop_function\<close> set as well. And when \<open>SIGTERM\<close>
  arrives while the handler of \<open>SIGINT\<close> is between its call (line 38) and its clear
  (line 39), \<open>stop_function\<close> is invoked twice and the input closed twice.
\<close>

theorem quit_twice_counterexample:
  "effects (run sample_resolver
      [Read_completed 0 (''!quit'' @ [CHR 0x0A]) 6, Read_completed 0 (''!quit'' @ [CHR 0x0A]) 6]
      started) =
     [Server_close, Async_read_until Handle_read_input,
      Server_close, Async_read_until Handle_read_input]
   \<and> stop_function (run sample_resolver
      [Read_completed 0 (''!quit'' @ [CHR 0x0A]) 6, Read_completed 0 (''!quit'' @ [CHR 0x0A]) 6]
      started) = Some Close_input
   \<and> effects (run sample_resolver [Read_completed 2 [] 0] started) = [Server_close]
   \<and> stop_function (run sample_resolver [Read_completed 2 [] 0] started) = Some Close_input
   \<and> signal_steps
        [Arrives SIGINT, Proceeds, Proceeds, Proceeds,
         Arrives SIGTERM, Proceeds, Proceeds, Proceeds, Proceeds,
         Proceeds]
        ([], started) =
       Some ([],
             \<lparr>stop_function = None, output_mutex = False,
              effects =
                [Write Cerr [Str ''Signal caught: stopping...''] False,
                 Stop_function_call, Input_close,
                 Write Cerr [Str ''Signal caught: stopping...''] False,
                 Stop_function_call, Input_close]\<rparr>)"
proof -
  have m: "at0 ''!quit'' = CHR ''!''" by (simp add: at0_def)
  have w: "command_words ''!quit'' = [''quit'']" by code_simp
  have q: "handle_read_line sample_resolver ''!quit'' st = perform Server_close st" for st
    by (simp add: handle_read_line_marker [OF m] w)
  have quit: "run sample_resolver
      [Read_completed 0 (''!quit'' @ [CHR 0x0A]) 6, Read_completed 0 (''!quit'' @ [CHR 0x0A]) 6]
      started =
      \<lparr>stop_function = Some Close_input, output_mutex = False,
       effects = [Server_close, Async_read_until Handle_read_input,
                  Server_close, Async_read_until Handle_read_input]\<rparr>"
    by (simp add: handle_read_input_def q perform_def started_def initial_world_def)
  have eof: "run sample_resolver [Read_completed 2 [] 0] started =
      \<lparr>stop_function = Some Close_input, output_mutex = False, effects = [Server_close]\<rparr>"
    by (simp add: handle_read_input_def perform_def started_def initial_world_def)
  have twice: "signal_steps
        [Arrives SIGINT, Proceeds, Proceeds, Proceeds,
         Arrives SIGTERM, Proceeds, Proceeds, Proceeds, Proceeds,
         Proceeds]
        ([], started) =
       Some ([],
             \<lparr>stop_function = None, output_mutex = False,
              effects =
                [Write Cerr [Str ''Signal caught: stopping...''] False,
                 Stop_function_call, Input_close,
                 Write Cerr [Str ''Signal caught: stopping...''] False,
                 Stop_function_call, Input_close]\<rparr>)"
    by (simp add: invoke_def put_line_def perform_def started_def initial_world_def
        SIGINT_def SIGTERM_def SIGABRT_def)
  from quit eof twice show ?thesis by simp
qed

text \<open>
  Claim C1 as amended. \<open>stop_function\<close> is assigned once the startup has succeeded and the
  workers are started (to closing the input where stream descriptors exist, to closing the
  transport otherwise), without being invoked; it is never assigned when the startup
  fails. A \<open>SIGTERM\<close>, \<open>SIGINT\<close> or \<open>SIGABRT\<close> that finds it set writes a notice, invokes it
  once and clears it immediately after the invocation; a signal that finds it clear, and
  any other signal, does nothing, so that a second signal after a handled one is a no-op.
  A read that fails closes the transport directly. After the workers are joined
  \<open>stop_function\<close> is cleared without being invoked. When every signal, line and read
  completion is handled to its end before the next one, \<open>stop_function\<close> is invoked at
  most once, in any run of the workers and in a whole execution of the program: over any
  such run the number of invocations grows by at most one, does not grow once
  \<open>stop_function\<close> is clear, and an invocation leaves it clear.
\<close>

theorem stop_function_once:
  "((code = SIGTERM \<or> code = SIGINT \<or> code = SIGABRT) \<and> stop_function st = Some f \<longrightarrow>
      signal_handler code st =
        st\<lparr>stop_function := None,
           effects := effects st @
             [Write Cerr [Str ''Signal caught: stopping...''] (output_mutex st),
              Stop_function_call,
              case f of Close_input \<Rightarrow> Input_close | Close_server \<Rightarrow> Server_close]\<rparr>)
   \<and> (stop_function st = None \<longrightarrow> signal_handler code st = st)
   \<and> (code \<noteq> SIGTERM \<and> code \<noteq> SIGINT \<and> code \<noteq> SIGABRT \<longrightarrow> signal_handler code st = st)
   \<and> (code = SIGTERM \<or> code = SIGINT \<or> code = SIGABRT \<longrightarrow>
        signal_handler code' (signal_handler code st) = signal_handler code st)
   \<and> signal_steps [Arrives code, Proceeds, Proceeds, Proceeds, Proceeds] ([], st) =
       Some ([], signal_handler code st)
   \<and> occurrences Stop_function_call (run resolve events st)
       \<le> occurrences Stop_function_call st + 1
   \<and> (stop_function st = None \<longrightarrow>
        occurrences Stop_function_call (run resolve events st) =
        occurrences Stop_function_call st)
   \<and> (occurrences Stop_function_call (run resolve events st) =
        occurrences Stop_function_call st + 1 \<longrightarrow>
        stop_function (run resolve events st) = None)
   \<and> (ec \<noteq> 0 \<longrightarrow>
        handle_read_input resolve ec input_buffer len st =
          Some (input_buffer, perform Server_close st))
   \<and> stop_function (snd (main_serve e None st)) =
       Some (if descriptors e then Close_input else Close_server)
   \<and> occurrences Stop_function_call (snd (main_serve e None st)) =
       occurrences Stop_function_call st
   \<and> stop_function (snd (main_serve e (Some events) st)) = None
   \<and> effects (snd (main_serve e (Some events) st)) =
       effects (run (resolve_of e) events (snd (main_serve e None st))) @
       [Join_all,
        Write Cout [Str ''Chat closing...'']
          (output_mutex (run (resolve_of e) events (snd (main_serve e None st))))]
   \<and> (fst (main e argv evs) = Some EXIT_FAILURE \<longrightarrow>
        stop_function (snd (main e argv evs)) = None
        \<and> occurrences Stop_function_call (snd (main e argv evs)) = 0)
   \<and> occurrences Stop_function_call (snd (main e argv evs)) \<le> 1"
proof -
  have b: "budget (run resolve events st) = budget st" by (rule run_budget)
  have f1: "(code = SIGTERM \<or> code = SIGINT \<or> code = SIGABRT) \<and> stop_function st = Some f \<longrightarrow>
      signal_handler code st =
        st\<lparr>stop_function := None,
           effects := effects st @
             [Write Cerr [Str ''Signal caught: stopping...''] (output_mutex st),
              Stop_function_call,
              case f of Close_input \<Rightarrow> Input_close | Close_server \<Rightarrow> Server_close]\<rparr>"
    using signal_handler_set [of code st f] by blast
  have f2: "stop_function st = None \<longrightarrow> signal_handler code st = st"
    by (simp add: signal_handler_clear)
  have f3: "code \<noteq> SIGTERM \<and> code \<noteq> SIGINT \<and> code \<noteq> SIGABRT \<longrightarrow> signal_handler code st = st"
    by (simp add: signal_handler_other)
  have f4: "code = SIGTERM \<or> code = SIGINT \<or> code = SIGABRT \<longrightarrow>
        signal_handler code' (signal_handler code st) = signal_handler code st"
  proof
    assume h: "code = SIGTERM \<or> code = SIGINT \<or> code = SIGABRT"
    then have "stop_function (signal_handler code st) = None"
      by (auto simp: signal_handler_def split: option.splits)
    then show "signal_handler code' (signal_handler code st) = signal_handler code st"
      by (rule signal_handler_clear)
  qed
  have f5: "signal_steps [Arrives code, Proceeds, Proceeds, Proceeds, Proceeds] ([], st) =
       Some ([], signal_handler code st)"
    by (rule signal_steps_uninterrupted)
  have f6: "occurrences Stop_function_call (run resolve events st)
       \<le> occurrences Stop_function_call st + 1"
    by (rule run_at_most_once)
  have f7: "stop_function st = None \<longrightarrow>
        occurrences Stop_function_call (run resolve events st) =
        occurrences Stop_function_call st"
    using b run_stop_function_None [of st resolve events] by (auto simp: budget_def)
  have f8: "occurrences Stop_function_call (run resolve events st) =
        occurrences Stop_function_call st + 1 \<longrightarrow>
        stop_function (run resolve events st) = None"
    using b by (simp add: budget_def split: if_splits)
  have f9: "ec \<noteq> 0 \<longrightarrow>
        handle_read_input resolve ec input_buffer len st =
          Some (input_buffer, perform Server_close st)"
    by (simp add: handle_read_input_def)
  have f10: "stop_function (snd (main_serve e None st)) =
       Some (if descriptors e then Close_input else Close_server)"
    by (simp add: main_serve_stop_function)
  have f11: "occurrences Stop_function_call (snd (main_serve e None st)) =
       occurrences Stop_function_call st"
    by (rule main_serve_started)
  have f12: "stop_function (snd (main_serve e (Some events) st)) = None"
    by (simp add: main_serve_stop_function)
  have f13: "effects (snd (main_serve e (Some events) st)) =
       effects (run (resolve_of e) events (snd (main_serve e None st))) @
       [Join_all,
        Write Cout [Str ''Chat closing...'']
          (output_mutex (run (resolve_of e) events (snd (main_serve e None st))))]"
    by (rule main_serve_finished)
  have f14: "fst (main e argv evs) = Some EXIT_FAILURE \<longrightarrow>
        stop_function (snd (main e argv evs)) = None
        \<and> occurrences Stop_function_call (snd (main e argv evs)) = 0"
    using main_failed_unassigned [of e argv evs] by blast
  have f15: "occurrences Stop_function_call (snd (main e argv evs)) \<le> 1"
    by (rule main_at_most_once)
  show ?thesis
    by (intro conjI) (fact f1 f2 f3 f4 f5 f6 f7 f8 f9 f10 f11 f12 f13 f14 f15)+
qed


text \<open>
  Claim C1 as amended, at \<open>SIGINT\<close> followed by further signals, at a signal that is not
  handled, at a read that fails, and at a start with too few arguments.
\<close>

theorem stop_function_once_witness:
  "(SIGINT = SIGTERM \<or> SIGINT = SIGINT \<or> SIGINT = SIGABRT)
   \<and> stop_function started = Some Close_input
   \<and> signal_handler SIGINT started =
       \<lparr>stop_function = None, output_mutex = False,
        effects = [Write Cerr [Str ''Signal caught: stopping...''] False,
                   Stop_function_call, Input_close]\<rparr>
   \<and> signal_handler SIGTERM (signal_handler SIGINT started) = signal_handler SIGINT started
   \<and> stop_function (signal_handler SIGINT started) = None
   \<and> signal_handler SIGABRT (signal_handler SIGINT started) = signal_handler SIGINT started
   \<and> (1 \<noteq> SIGTERM \<and> 1 \<noteq> SIGINT \<and> 1 \<noteq> SIGABRT)
   \<and> signal_handler 1 started = started
   \<and> occurrences Stop_function_call (run sample_resolver [Signal SIGINT, Signal SIGTERM] started)
       = occurrences Stop_function_call started + 1
   \<and> stop_function (run sample_resolver [Signal SIGINT, Signal SIGTERM] started) = None
   \<and> occurrences Stop_function_call
        (run sample_resolver [Signal SIGABRT] (signal_handler SIGINT started)) =
       occurrences Stop_function_call (signal_handler SIGINT started)
   \<and> (2 :: int) \<noteq> 0
   \<and> handle_read_input sample_resolver 2 [] 0 started = Some ([], perform Server_close started)
   \<and> fst (main sample_env [''schat''] None) = Some EXIT_FAILURE
   \<and> stop_function (snd (main sample_env [''schat''] None)) = None
   \<and> occurrences Stop_function_call (snd (main sample_env [''schat''] None)) = 0"
proof -
  let ?stopped = "signal_handler SIGINT started"
  have h: "SIGINT = SIGTERM \<or> SIGINT = SIGINT \<or> SIGINT = SIGABRT" by simp
  have s: "stop_function started = Some Close_input"
    by (simp add: started_def initial_world_def)
  have o: "1 \<noteq> SIGTERM \<and> 1 \<noteq> SIGINT \<and> 1 \<noteq> SIGABRT"
    by (simp add: SIGTERM_def SIGINT_def SIGABRT_def)
  have r: "occurrences Stop_function_call
             (run sample_resolver [Signal SIGINT, Signal SIGTERM] started) =
           occurrences Stop_function_call started + 1"
    by (simp add: occurrences_def signal_handler_def invoke_def put_line_def perform_def
        started_def initial_world_def SIGINT_def SIGTERM_def SIGABRT_def)
  have z: "(2 :: int) \<noteq> 0" by simp
  have x: "fst (main sample_env [''schat''] None) = Some EXIT_FAILURE"
    by (simp add: main_def)
  from stop_function_once [where code = SIGINT and st = started and f = Close_input,
      THEN conjunct1] h s
  have 1: "signal_handler SIGINT started =
       \<lparr>stop_function = None, output_mutex = False,
        effects = [Write Cerr [Str ''Signal caught: stopping...''] False,
                   Stop_function_call, Input_close]\<rparr>"
    by (simp add: started_def initial_world_def)
  from stop_function_once [where code = SIGINT and st = started and code' = SIGTERM,
      THEN conjunct2, THEN conjunct2, THEN conjunct2, THEN conjunct1] h
  have 4: "signal_handler SIGTERM ?stopped = ?stopped" by simp
  have c: "stop_function ?stopped = None" by (simp add: 1)
  from stop_function_once [where code = SIGABRT and st = ?stopped,
      THEN conjunct2, THEN conjunct1] c
  have 2: "signal_handler SIGABRT ?stopped = ?stopped" by simp
  from stop_function_once [where code = 1 and st = started,
      THEN conjunct2, THEN conjunct2, THEN conjunct1] o
  have 3: "signal_handler 1 started = started" by simp
  from stop_function_once [where resolve = sample_resolver
      and events = "[Signal SIGINT, Signal SIGTERM]" and st = started,
      THEN conjunct2, THEN conjunct2, THEN conjunct2, THEN conjunct2, THEN conjunct2,
      THEN conjunct2, THEN conjunct2, THEN conjunct1] r
  have 8: "stop_function (run sample_resolver [Signal SIGINT, Signal SIGTERM] started) = None"
    by simp
  from stop_function_once [where resolve = sample_resolver
      and events = "[Signal SIGABRT]" and st = ?stopped,
      THEN conjunct2, THEN conjunct2, THEN conjunct2, THEN conjunct2, THEN conjunct2,
      THEN conjunct2, THEN conjunct1] c
  have 7: "occurrences Stop_function_call (run sample_resolver [Signal SIGABRT] ?stopped) =
       occurrences Stop_function_call ?stopped"
    by simp
  from stop_function_once [where resolve = sample_resolver and ec = 2 and input_buffer = "[]"
      and len = 0 and st = started,
      THEN conjunct2, THEN conjunct2, THEN conjunct2, THEN conjunct2, THEN conjunct2,
      THEN conjunct2, THEN conjunct2, THEN conjunct2, THEN conjunct1] z
  have 9: "handle_read_input sample_resolver 2 [] 0 started =
       Some ([], perform Server_close started)"
    by simp
  from stop_function_once [where e = sample_env and argv = "[''schat'']" and evs = None,
      THEN conjunct2, THEN conjunct2, THEN conjunct2, THEN conjunct2, THEN conjunct2,
      THEN conjunct2, THEN conjunct2, THEN conjunct2, THEN conjunct2, THEN conjunct2,
      THEN conjunct2, THEN conjunct2, THEN conjunct2, THEN conjunct1] x
  have 14: "stop_function (snd (main sample_env [''schat''] None)) = None
        \<and> occurrences Stop_function_call (snd (main sample_env [''schat''] None)) = 0"
    by simp
  from h s 1 4 c 2 o 3 r 8 7 z 9 x 14 show ?thesis by (intro conjI) simp_all
qed

text \<open>
  Claim C6 says that one worker is created when no hardware thread is reported. With
  \<open>hardware_concurrency\<close> equal to 0 the program starts, announces 0 threads and creates
  none.
\<close>

theorem no_hardware_threads_counterexample:
  "effects (snd (main (sample_env\<lparr>hardware_concurrency := 0\<rparr>) sample_argv (Some []))) =
     [Set_cipher_capabilities [2], Server_open (Endpoint ''127.0.0.1'' 12000), Set_callbacks,
      Write Cout [Str ''Chat started. Type !quit to exit.''] False,
      Write Cout [Str ''Starting client with '', Num 0, Str '' thread(s).''] False,
      Async_read_until Handle_read_input, Join_all,
      Write Cout [Str ''Chat closing...''] False]"
  by (simp add: main_def main_serve_def sample_env_def sample_argv_def sample_resolver_def
      register_signal_handlers_def initial_world_def put_line_def perform_def Let_def
      create_threads.simps [of 0])

text \<open>
  Claim C6 as amended. The number of workers created equals the number of hardware
  threads reported, for every such number: no minimum is applied, and none is created
  when 0 is reported.
\<close>

theorem worker_count:
  "occurrences Create_thread (snd (main_serve e events st)) =
     occurrences Create_thread st + unat (hardware_concurrency e)"
  by (simp add: main_serve_def Let_def occurrences_perform occurrences_put_line
      occurrences_stop_function_update create_threads_occurrences run_occurrences_create
      split: option.splits)

text \<open>
  Claim C9. With an argument count other than six (\<open>argc\<close> other than 7) the program
  exits with \<open>EXIT_FAILURE\<close> having done nothing but write to the error stream. With six
  arguments it exits with \<open>EXIT_FAILURE\<close> whenever a step of the startup throws: the
  conversion of the cipher algorithm, the resolution of the listen endpoint, the loading of
  the certificate or of the private key, the lookup of the common name, the opening of the
  socket. When every step of the startup succeeds and the workers finish, it exits with
  \<open>EXIT_SUCCESS\<close>, and it exits with \<open>EXIT_SUCCESS\<close> in no other case. \<open>EXIT_SUCCESS\<close> is 0
  and \<open>EXIT_FAILURE\<close> is not.
\<close>

theorem exit_status:
  "(length argv \<noteq> 7 \<longrightarrow>
      fst (main e argv events) = Some EXIT_FAILURE
      \<and> (\<forall>x \<in> set (effects (snd (main e argv events))). \<exists>items. x = Write Cerr items False))
   \<and> (length argv = 7 \<and> lexical_cast e (argv ! 5) = Inl ex \<longrightarrow>
        fst (main e argv events) = Some EXIT_FAILURE)
   \<and> (length argv = 7 \<and> resolve_of e (argv ! 3) (argv ! 4) = Inl ex \<longrightarrow>
        fst (main e argv events) = Some EXIT_FAILURE)
   \<and> (length argv = 7 \<and> load_certificate e (argv ! 1) = Inl ex \<longrightarrow>
        fst (main e argv events) = Some EXIT_FAILURE)
   \<and> (length argv = 7 \<and> load_private_key e (argv ! 2) = Inl ex \<longrightarrow>
        fst (main e argv events) = Some EXIT_FAILURE)
   \<and> (length argv = 7 \<and> load_certificate e (argv ! 1) = Inr certificate
        \<and> common_name e certificate = Inl ex \<longrightarrow>
        fst (main e argv events) = Some EXIT_FAILURE)
   \<and> (length argv = 7 \<and> resolve_of e (argv ! 3) (argv ! 4) = Inr listen_ep
        \<and> server_open e listen_ep = Some ex \<longrightarrow>
        fst (main e argv events) = Some EXIT_FAILURE)
   \<and> (length argv = 7 \<and> lexical_cast e (argv ! 5) = Inr calg
        \<and> resolve_of e (argv ! 3) (argv ! 4) = Inr listen_ep
        \<and> load_certificate e (argv ! 1) = Inr certificate
        \<and> load_private_key e (argv ! 2) = Inr private_key
        \<and> common_name e certificate = Inr local_name
        \<and> server_open e listen_ep = None \<longrightarrow>
        fst (main e argv (Some es)) = Some EXIT_SUCCESS)
   \<and> (fst (main e argv events) = Some EXIT_SUCCESS \<longrightarrow>
        length argv = 7 \<and> events \<noteq> None
        \<and> (\<exists>calg' listen_ep' certificate' private_key' local_name'.
              lexical_cast e (argv ! 5) = Inr calg'
              \<and> resolve_of e (argv ! 3) (argv ! 4) = Inr listen_ep'
              \<and> load_certificate e (argv ! 1) = Inr certificate'
              \<and> load_private_key e (argv ! 2) = Inr private_key'
              \<and> common_name e certificate' = Inr local_name'
              \<and> server_open e listen_ep' = None))
   \<and> EXIT_FAILURE \<noteq> 0 \<and> EXIT_SUCCESS = 0"
proof -
  note r = register_signal_handlers_state [of "signal_ok e"]
  have ne: "EXIT_FAILURE \<noteq> EXIT_SUCCESS" by (simp add: EXIT_FAILURE_def EXIT_SUCCESS_def)
  have 1: "length argv \<noteq> 7 \<longrightarrow>
      fst (main e argv events) = Some EXIT_FAILURE
      \<and> (\<forall>x \<in> set (effects (snd (main e argv events))). \<exists>items. x = Write Cerr items False)"
    using r by (simp add: main_def Let_def put_line_def perform_def)
  have 2: "length argv = 7 \<and> lexical_cast e (argv ! 5) = Inl x \<longrightarrow>
        fst (main e argv events) = Some EXIT_FAILURE" for x
    by (simp add: main_def Let_def main_catch_def split: sum.splits)
  have 3: "length argv = 7 \<and> resolve_of e (argv ! 3) (argv ! 4) = Inl x \<longrightarrow>
        fst (main e argv events) = Some EXIT_FAILURE" for x
    by (simp add: main_def Let_def main_catch_def split: sum.splits)
  have 4: "length argv = 7 \<and> load_certificate e (argv ! 1) = Inl x \<longrightarrow>
        fst (main e argv events) = Some EXIT_FAILURE" for x
    by (simp add: main_def Let_def main_catch_def split: sum.splits)
  have 5: "length argv = 7 \<and> load_private_key e (argv ! 2) = Inl x \<longrightarrow>
        fst (main e argv events) = Some EXIT_FAILURE" for x
    by (simp add: main_def Let_def main_catch_def split: sum.splits)
  have 6: "length argv = 7 \<and> load_certificate e (argv ! 1) = Inr c
        \<and> common_name e c = Inl x \<longrightarrow>
        fst (main e argv events) = Some EXIT_FAILURE" for x c
    by (simp add: main_def Let_def main_catch_def split: sum.splits)
  have 7: "length argv = 7 \<and> resolve_of e (argv ! 3) (argv ! 4) = Inr l
        \<and> server_open e l = Some x \<longrightarrow>
        fst (main e argv events) = Some EXIT_FAILURE" for x l
    by (simp add: main_def Let_def main_catch_def split: sum.splits)
  have 8: "length argv = 7 \<and> lexical_cast e (argv ! 5) = Inr a
        \<and> resolve_of e (argv ! 3) (argv ! 4) = Inr l
        \<and> load_certificate e (argv ! 1) = Inr c
        \<and> load_private_key e (argv ! 2) = Inr k
        \<and> common_name e c = Inr n
        \<and> server_open e l = None \<longrightarrow>
        fst (main e argv evs) = (case evs of None \<Rightarrow> None | Some es \<Rightarrow> Some EXIT_SUCCESS)"
    for a l c k n evs
    by (simp add: main_def Let_def main_serve_status)
  have 9: "fst (main e argv events) = Some EXIT_SUCCESS \<longrightarrow>
        length argv = 7 \<and> events \<noteq> None
        \<and> (\<exists>calg' listen_ep' certificate' private_key' local_name'.
              lexical_cast e (argv ! 5) = Inr calg'
              \<and> resolve_of e (argv ! 3) (argv ! 4) = Inr listen_ep'
              \<and> load_certificate e (argv ! 1) = Inr certificate'
              \<and> load_private_key e (argv ! 2) = Inr private_key'
              \<and> common_name e certificate' = Inr local_name'
              \<and> server_open e listen_ep' = None)"
  proof
    assume s: "fst (main e argv events) = Some EXIT_SUCCESS"
    with 1 ne have len: "length argv = 7" by auto
    from s len 2 ne obtain a where a: "lexical_cast e (argv ! 5) = Inr a"
      by (cases "lexical_cast e (argv ! 5)") auto
    from s len 3 ne obtain l where l: "resolve_of e (argv ! 3) (argv ! 4) = Inr l"
      by (cases "resolve_of e (argv ! 3) (argv ! 4)") auto
    from s len 4 ne obtain c where c: "load_certificate e (argv ! 1) = Inr c"
      by (cases "load_certificate e (argv ! 1)") auto
    from s len 5 ne obtain k where k: "load_private_key e (argv ! 2) = Inr k"
      by (cases "load_private_key e (argv ! 2)") auto
    from s len c 6 ne obtain n where n: "common_name e c = Inr n"
      by (cases "common_name e c") auto
    from s len l 7 ne have opened: "server_open e l = None"
      by (cases "server_open e l") auto
    from 8 [of a l c k n events] len a l c k n opened s have "events \<noteq> None"
      by (cases events) auto
    with len a l c k n opened show "length argv = 7 \<and> events \<noteq> None
        \<and> (\<exists>calg' listen_ep' certificate' private_key' local_name'.
              lexical_cast e (argv ! 5) = Inr calg'
              \<and> resolve_of e (argv ! 3) (argv ! 4) = Inr listen_ep'
              \<and> load_certificate e (argv ! 1) = Inr certificate'
              \<and> load_private_key e (argv ! 2) = Inr private_key'
              \<and> common_name e certificate' = Inr local_name'
              \<and> server_open e listen_ep' = None)"
      by blast
  qed
  note f2 = 2 [of ex] and f3 = 3 [of ex] and f4 = 4 [of ex] and f5 = 5 [of ex]
    and f6 = 6 [of certificate ex] and f7 = 7 [of listen_ep ex]
  from 8 [of calg listen_ep certificate private_key local_name "Some es"]
  have f8: "length argv = 7 \<and> lexical_cast e (argv ! 5) = Inr calg
        \<and> resolve_of e (argv ! 3) (argv ! 4) = Inr listen_ep
        \<and> load_certificate e (argv ! 1) = Inr certificate
        \<and> load_private_key e (argv ! 2) = Inr private_key
        \<and> common_name e certificate = Inr local_name
        \<and> server_open e listen_ep = None \<longrightarrow>
        fst (main e argv (Some es)) = Some EXIT_SUCCESS"
    by simp
  have f10: "EXIT_FAILURE \<noteq> 0" and f11: "EXIT_SUCCESS = 0"
    by (simp_all add: EXIT_FAILURE_def EXIT_SUCCESS_def)
  note f1 = 1 and f9 = 9
  show ?thesis
    by (intro conjI) (fact f1 f2 f3 f4 f5 f6 f7 f8 f9 f10 f11)+
qed


text \<open>
  Claim C9, at a command line of one argument, at a cipher algorithm that is not a number,
  an unknown listen host, a missing certificate, a missing key, a certificate without
  common name and a busy port, and at a run that ends by \<open>SIGINT\<close>.
\<close>

theorem exit_status_witness:
  "length [''schat'', ''alice.crt''] \<noteq> 7
   \<and> fst (main sample_env [''schat'', ''alice.crt''] None) = Some EXIT_FAILURE
   \<and> effects (snd (main sample_env [''schat'', ''alice.crt''] None)) = [Write Cerr [Str usage] False]
   \<and> length sample_argv = 7
   \<and> lexical_cast sample_env (sample_argv[5 := ''aes''] ! 5) =
       Inl (Std_exception ''bad lexical cast'')
   \<and> fst (main sample_env (sample_argv[5 := ''aes'']) (Some [])) = Some EXIT_FAILURE
   \<and> resolve_of sample_env (sample_argv[3 := ''nowhere''] ! 3) (sample_argv[3 := ''nowhere''] ! 4) =
       Inl (Std_exception ''Host not found (authoritative)'')
   \<and> fst (main sample_env (sample_argv[3 := ''nowhere'']) (Some [])) = Some EXIT_FAILURE
   \<and> load_certificate sample_env (sample_argv[1 := ''bob.crt''] ! 1) =
       Inl (Std_exception ''No such file or directory'')
   \<and> fst (main sample_env (sample_argv[1 := ''bob.crt'']) (Some [])) = Some EXIT_FAILURE
   \<and> load_private_key sample_env (sample_argv[2 := ''bob.key''] ! 2) =
       Inl (Std_exception ''No such file or directory'')
   \<and> fst (main sample_env (sample_argv[2 := ''bob.key'']) (Some [])) = Some EXIT_FAILURE
   \<and> fst (main (sample_env\<lparr>common_name := \<lambda>c. Inl (Std_exception ''no common name'')\<rparr>)
            sample_argv (Some [])) = Some EXIT_FAILURE
   \<and> fst (main (sample_env\<lparr>server_open := \<lambda>ep. Some (Std_exception ''Address already in use'')\<rparr>)
            sample_argv (Some [])) = Some EXIT_FAILURE
   \<and> fst (main sample_env sample_argv (Some [Signal SIGINT])) = Some EXIT_SUCCESS
   \<and> (\<exists>certificate'. load_certificate sample_env (sample_argv ! 1) = Inr certificate')
   \<and> EXIT_SUCCESS = 0 \<and> EXIT_FAILURE \<noteq> 0"
proof -
  let ?busy = "sample_env\<lparr>server_open := \<lambda>ep. Some (Std_exception ''Address already in use'')\<rparr>"
  let ?anon = "sample_env\<lparr>common_name := \<lambda>c. Inl (Std_exception ''no common name'')\<rparr>"
  have a: "length [''schat'', ''alice.crt''] \<noteq> 7" by simp
  have l: "length sample_argv = 7" by (simp add: sample_argv_def)
  have x: "lexical_cast sample_env (sample_argv[5 := ''aes''] ! 5) =
       Inl (Std_exception ''bad lexical cast'')"
    by (simp add: sample_env_def sample_argv_def)
  have c: "load_certificate sample_env (sample_argv[1 := ''bob.crt''] ! 1) =
       Inl (Std_exception ''No such file or directory'')"
    by (simp add: sample_env_def sample_argv_def)
  have k: "load_private_key sample_env (sample_argv[2 := ''bob.key''] ! 2) =
       Inl (Std_exception ''No such file or directory'')"
    by (simp add: sample_env_def sample_argv_def)
  have r: "resolve_of sample_env (sample_argv[3 := ''nowhere''] ! 3)
             (sample_argv[3 := ''nowhere''] ! 4) =
       Inl (Std_exception ''Host not found (authoritative)'')"
    by (simp add: sample_env_def sample_argv_def sample_resolver_def)
  have n: "load_certificate ?anon (sample_argv ! 1) = Inr (Cert ''/CN=alice'')
       \<and> common_name ?anon (Cert ''/CN=alice'') = Inl (Std_exception ''no common name'')"
    by (simp add: sample_env_def sample_argv_def)
  have o: "resolve_of ?busy (sample_argv ! 3) (sample_argv ! 4) = Inr (Endpoint ''127.0.0.1'' 12000)
       \<and> server_open ?busy (Endpoint ''127.0.0.1'' 12000) =
           Some (Std_exception ''Address already in use'')"
    by (simp add: sample_env_def sample_argv_def sample_resolver_def)
  have g: "lexical_cast sample_env (sample_argv ! 5) = Inr 2
        \<and> resolve_of sample_env (sample_argv ! 3) (sample_argv ! 4) = Inr (Endpoint ''127.0.0.1'' 12000)
        \<and> load_certificate sample_env (sample_argv ! 1) = Inr (Cert ''/CN=alice'')
        \<and> load_private_key sample_env (sample_argv ! 2) = Inr ''alice-key''
        \<and> common_name sample_env (Cert ''/CN=alice'') = Inr ''alice''
        \<and> server_open sample_env (Endpoint ''127.0.0.1'' 12000) = None"
    by (simp add: sample_env_def sample_argv_def sample_resolver_def)
  have w: "effects (snd (main sample_env [''schat'', ''alice.crt''] None)) =
             [Write Cerr [Str usage] False]"
    by (simp add: main_def sample_env_def register_signal_handlers_def initial_world_def
        put_line_def perform_def)
  from exit_status [where argv = "[''schat'', ''alice.crt'']" and e = sample_env and events = None,
      THEN conjunct1] a
  have 1: "fst (main sample_env [''schat'', ''alice.crt''] None) = Some EXIT_FAILURE" by simp
  from exit_status [where argv = "sample_argv[5 := ''aes'']" and e = sample_env
      and ex = "Std_exception ''bad lexical cast''" and events = "Some []",
      THEN conjunct2, THEN conjunct1] l x
  have 2: "fst (main sample_env (sample_argv[5 := ''aes'']) (Some [])) = Some EXIT_FAILURE"
    by simp
  from exit_status [where argv = "sample_argv[3 := ''nowhere'']" and e = sample_env
      and ex = "Std_exception ''Host not found (authoritative)''" and events = "Some []",
      THEN conjunct2, THEN conjunct2, THEN conjunct1] l r
  have 3: "fst (main sample_env (sample_argv[3 := ''nowhere'']) (Some [])) = Some EXIT_FAILURE"
    by simp
  from exit_status [where argv = "sample_argv[1 := ''bob.crt'']" and e = sample_env
      and ex = "Std_exception ''No such file or directory''" and events = "Some []",
      THEN conjunct2, THEN conjunct2, THEN conjunct2, THEN conjunct1] l c
  have 4: "fst (main sample_env (sample_argv[1 := ''bob.crt'']) (Some [])) = Some EXIT_FAILURE"
    by simp
  from exit_status [where argv = "sample_argv[2 := ''bob.key'']" and e = sample_env
      and ex = "Std_exception ''No such file or directory''" and events = "Some []",
      THEN conjunct2, THEN conjunct2, THEN conjunct2, THEN conjunct2, THEN conjunct1] l k
  have 5: "fst (main sample_env (sample_argv[2 := ''bob.key'']) (Some [])) = Some EXIT_FAILURE"
    by simp
  from exit_status [where argv = sample_argv and e = ?anon
      and ex = "Std_exception ''no common name''" and events = "Some []"
      and certificate = "Cert ''/CN=alice''",
      THEN conjunct2, THEN conjunct2, THEN conjunct2, THEN conjunct2, THEN conjunct2,
      THEN conjunct1] l n
  have 6: "fst (main ?anon sample_argv (Some [])) = Some EXIT_FAILURE"
    by simp
  from exit_status [where argv = sample_argv and e = ?busy
      and ex = "Std_exception ''Address already in use''" and events = "Some []"
      and listen_ep = "Endpoint ''127.0.0.1'' 12000",
      THEN conjunct2, THEN conjunct2, THEN conjunct2, THEN conjunct2, THEN conjunct2,
      THEN conjunct2, THEN conjunct1] l o
  have 7: "fst (main ?busy sample_argv (Some [])) = Some EXIT_FAILURE"
    by simp
  from exit_status [where argv = sample_argv and e = sample_env
      and certificate = "Cert ''/CN=alice''" and listen_ep = "Endpoint ''127.0.0.1'' 12000"
      and calg = 2 and private_key = "''alice-key''" and local_name = "''alice''"
      and es = "[Signal SIGINT]",
      THEN conjunct2, THEN conjunct2, THEN conjunct2, THEN conjunct2, THEN conjunct2,
      THEN conjunct2, THEN conjunct2, THEN conjunct1] l g
  have 8: "fst (main sample_env sample_argv (Some [Signal SIGINT])) = Some EXIT_SUCCESS"
    by simp
  from exit_status [where argv = sample_argv and e = sample_env
      and events = "Some [Signal SIGINT]",
      THEN conjunct2, THEN conjunct2, THEN conjunct2, THEN conjunct2, THEN conjunct2,
      THEN conjunct2, THEN conjunct2, THEN conjunct2, THEN conjunct1] 8
  have 9: "\<exists>certificate'. load_certificate sample_env (sample_argv ! 1) = Inr certificate'"
    by blast
  from exit_status [where argv = sample_argv and e = sample_env,
      THEN conjunct2, THEN conjunct2, THEN conjunct2, THEN conjunct2, THEN conjunct2,
      THEN conjunct2, THEN conjunct2, THEN conjunct2, THEN conjunct2]
  have 10: "EXIT_SUCCESS = 0 \<and> EXIT_FAILURE \<noteq> 0" by simp
  from a w l x c k r 1 2 3 4 5 6 7 8 9 10 show ?thesis by simp
qed

end
